theory Spec2Isabelle
  imports Complex_Main "HOL-Library.Log_Nat"
begin

section \<open>Data model (types.ts, constants.tsx)\<close>

text \<open>
  The embedding follows the current revision of \<^verbatim>\<open>App.tsx\<close> (the one with tile levels,
  fog of war and boats) and the matching revision of \<^verbatim>\<open>constants.tsx\<close>
  (\<^verbatim>\<open>GRID_SIZE = 20\<close>, \<^verbatim>\<open>UPGRADE_MULTIPLIER = 1.5\<close>, the Port building).

  Counters, levels and hit points, which the program only ever combines by integer
  operations, are \<^typ>\<open>int\<close>; land values, positions and random draws are \<^typ>\<open>rat\<close>. The
  transactions and the ticks compute in exact rationals: there \<^verbatim>\<open>0.1\<close> is the fraction one
  tenth. The land-value function is given twice, in exact rationals (\<open>calculateLandValue\<close>)
  and with the rounding of IEEE 754 binary64 (\<open>calculateLandValue_f64\<close>); the two differ by
  at most \<open>1 / 2 ^ 44\<close> (\<open>calculateLandValue_f64_close\<close>).

  \<^verbatim>\<open>types.ts\<close> is present in an older revision only. The declarations it lacks are
  taken from their uses in \<^verbatim>\<open>App.tsx\<close> and from the data model of the specification:
  the building type \<^verbatim>\<open>Port\<close>, the tile fields \<^verbatim>\<open>level\<close> and \<^verbatim>\<open>explored\<close>, and the
  type \<^verbatim>\<open>Boat\<close>. Fields named \<^verbatim>\<open>x\<close>, \<^verbatim>\<open>y\<close> and \<^verbatim>\<open>id\<close> carry the record's name as a
  prefix. Presentation-only fields (\<^verbatim>\<open>description\<close>, \<^verbatim>\<open>color\<close>) and the optional
  \<^verbatim>\<open>targetX\<close>, \<^verbatim>\<open>targetY\<close> of \<^verbatim>\<open>Enemy\<close>, which \<^verbatim>\<open>App.tsx\<close> never touches, are left out.
\<close>

datatype BuildingType =
  NoneB | Road | Residential | Commercial | Industrial | Park | Farm | Defense | Port

datatype Era = Primitive | IndustrialE | Modern | Future

datatype Weather = Sunny | Rain | Snow

datatype ResourceType = NoneR | Water | Forest | Stone

record BuildingConfig =
  costMoney :: int
  costWood :: int
  costStone :: int
  name :: string
  popGen :: int
  incomeGen :: int

record TileData =
  tile_x :: int
  tile_y :: int
  buildingType :: BuildingType
  variant :: rat
  resourceType :: ResourceType
  landValue :: rat
  level :: int
  explored :: bool

type_synonym Grid = "TileData list list"

record CityStats =
  money :: int
  wood :: int
  stone :: int
  food :: int
  population :: int
  day :: int
  era :: Era
  weather :: Weather

record Enemy =
  enemy_id :: string
  enemy_x :: rat
  enemy_y :: rat
  hp :: int
  maxHp :: int
  attackCooldown :: int

datatype BoatState = idle | exploring

text \<open>Modelled from the spec: the type \<^verbatim>\<open>Boat\<close> (the specification's ExplorerAgent), whose
  declaration is missing; the fields are those \<^verbatim>\<open>App.tsx\<close> reads and writes.\<close>

record Boat =
  boat_id :: string
  boat_x :: rat
  boat_y :: rat
  targetX :: "int option"
  targetY :: "int option"
  boat_state :: BoatState

text \<open>
  A news item is its text and its type; the texts are the message templates of
  \<^verbatim>\<open>App.tsx\<close>, one constructor each, and the time-stamp identifier is left out.
\<close>

datatype NewsText =
    Established
  | EraAdvance Era
  | FoodShortage
  | HostilesDetected
  | ExpeditionDiscovered
  | MaxLevel
  | UpgradedTo string int
  | UpgradeCosts int int int
  | OnlyPortsOrBridgesOnWater
  | PortsMustBeOnWater
  | InsufficientResources string
  | GoalAchieved

datatype NewsType = positive | negative | neutral

type_synonym NewsItem = "NewsText \<times> NewsType"

text \<open>
  The React state of \<^verbatim>\<open>App\<close>. The handlers read \<^verbatim>\<open>gridRef.current\<close> and
  \<^verbatim>\<open>statsRef.current\<close> and write through \<^verbatim>\<open>setGrid\<close>, \<^verbatim>\<open>setStats\<close>, ...; the model is
  the single-writer one of the specification: a handler runs to completion on the
  current state and the refs hold that state. A state updater passed to a setter is
  queued and runs after the code that queued it; the updaters of one handler run in the
  order of their calls, each on the state the previous one left. Where the code after
  the call reads nothing that the updater writes, the model applies the updater at the
  place of its call, which gives the same state; the one place where the code reads a
  local variable that a queued updater sets is the boat reveal, see \<open>revealArea\<close>.
  The goal tracker, \<^verbatim>\<open>handleClaimReward\<close> (which
  credits a reward chosen by the external oracle) and the news oracle are outside the
  model.
\<close>

record Game =
  gameStarted :: bool
  grid :: Grid
  stats :: CityStats
  enemies :: "Enemy list"
  boats :: "Boat list"
  newsFeed :: "NewsItem list"

abbreviation GRID_SIZE :: int where
  "GRID_SIZE \<equiv> 20"

definition UPGRADE_MULTIPLIER :: rat where
  "UPGRADE_MULTIPLIER = 3 / 2"

fun ERA_THRESHOLDS :: "Era \<Rightarrow> int \<times> int" where
  "ERA_THRESHOLDS Primitive = (0, 0)"
| "ERA_THRESHOLDS IndustrialE = (50, 3000)"
| "ERA_THRESHOLDS Modern = (300, 15000)"
| "ERA_THRESHOLDS Future = (1000, 60000)"

definition thr_pop :: "Era \<Rightarrow> int" where
  "thr_pop e = fst (ERA_THRESHOLDS e)"

definition thr_money :: "Era \<Rightarrow> int" where
  "thr_money e = snd (ERA_THRESHOLDS e)"

fun BUILDINGS :: "BuildingType \<Rightarrow> BuildingConfig" where
  "BUILDINGS NoneB = \<lparr>costMoney = 0, costWood = 0, costStone = 0,
     name = ''Bulldoze'', popGen = 0, incomeGen = 0\<rparr>"
| "BUILDINGS Road = \<lparr>costMoney = 5, costWood = 0, costStone = 0,
     name = ''Road'', popGen = 0, incomeGen = 0\<rparr>"
| "BUILDINGS Residential = \<lparr>costMoney = 50, costWood = 10, costStone = 0,
     name = ''Housing'', popGen = 5, incomeGen = 5\<rparr>"
| "BUILDINGS Commercial = \<lparr>costMoney = 100, costWood = 20, costStone = 5,
     name = ''Business'', popGen = 0, incomeGen = 25\<rparr>"
| "BUILDINGS Industrial = \<lparr>costMoney = 200, costWood = 30, costStone = 10,
     name = ''Industry'', popGen = 0, incomeGen = 10\<rparr>"
| "BUILDINGS Farm = \<lparr>costMoney = 30, costWood = 5, costStone = 0,
     name = ''Farm'', popGen = 0, incomeGen = 5\<rparr>"
| "BUILDINGS Defense = \<lparr>costMoney = 150, costWood = 20, costStone = 40,
     name = ''Defense'', popGen = 0, incomeGen = - 5\<rparr>"
| "BUILDINGS Park = \<lparr>costMoney = 50, costWood = 10, costStone = 5,
     name = ''Park'', popGen = 1, incomeGen = 0\<rparr>"
| "BUILDINGS Port = \<lparr>costMoney = 300, costWood = 50, costStone = 20,
     name = ''Port'', popGen = 2, incomeGen = 10\<rparr>"

section \<open>The grid\<close>

text \<open>
  \<^verbatim>\<open>grid[y][x]\<close>: a list of rows. Every access of the program is guarded by the bounds
  test against \<^verbatim>\<open>GRID_SIZE\<close>; \<open>wf_grid\<close> says that the array really has that shape, as
  \<^verbatim>\<open>createInitialGrid\<close> builds it.
\<close>

definition inBounds :: "int \<Rightarrow> int \<Rightarrow> bool" where
  "inBounds nx ny \<longleftrightarrow> nx \<ge> 0 \<and> nx < GRID_SIZE \<and> ny \<ge> 0 \<and> ny < GRID_SIZE"

definition tileAt :: "Grid \<Rightarrow> int \<Rightarrow> int \<Rightarrow> TileData" where
  "tileAt g nx ny = g ! nat ny ! nat nx"

definition setTile :: "Grid \<Rightarrow> int \<Rightarrow> int \<Rightarrow> TileData \<Rightarrow> Grid" where
  "setTile g nx ny t = g[nat ny := (g ! nat ny)[nat nx := t]]"

definition wf_grid :: "Grid \<Rightarrow> bool" where
  "wf_grid g \<longleftrightarrow> length g = nat GRID_SIZE \<and> list_all (\<lambda>row. length row = nat GRID_SIZE) g"

section \<open>Land value (calculateLandValue)\<close>

definition neighbors :: "(int \<times> int) list" where
  "neighbors = [(-1,0), (1,0), (0,-1), (0,1), (-1,-1), (-1,1), (1,-1), (1,1)]"

text \<open>The body of the \<^verbatim>\<open>forEach\<close> callback for one in-bounds neighbour tile.\<close>

definition addNeighbor :: "TileData \<Rightarrow> rat \<Rightarrow> rat" where
  "addNeighbor tile v0 =
    (let v1 = (if resourceType tile = Water then v0 + 1/10 else v0);
         v2 = (if resourceType tile = Forest then v1 + 1/20 else v1);
         v3 = (if buildingType tile = Park then v2 + 1/5 else v2);
         v4 = (if buildingType tile = Industrial then v3 - 3/20 else v3);
         v5 = (if buildingType tile = Defense then v4 + 1/20 else v4);
         v6 = (if level tile > 1 then v5 + (1/10) * of_int (level tile - 1) else v5)
     in v6)"

definition landValueStep :: "Grid \<Rightarrow> int \<Rightarrow> int \<Rightarrow> rat \<Rightarrow> int \<times> int \<Rightarrow> rat" where
  "landValueStep g px py v d =
    (case d of (dx, dy) \<Rightarrow>
      let nx = px + dx; ny = py + dy
      in if inBounds nx ny then addNeighbor (tileAt g nx ny) v else v)"

definition calculateLandValue :: "Grid \<Rightarrow> int \<Rightarrow> int \<Rightarrow> rat" where
  "calculateLandValue g px py =
    (let v = foldl (landValueStep g px py) 1 neighbors
     in max (1/2) (min (5/2) v))"

text \<open>
  The sum of the six terms of one neighbour, in exact arithmetic.
\<close>

definition neighborBonus_spec :: "TileData \<Rightarrow> rat" where
  "neighborBonus_spec t =
      (if resourceType t = Water then 1/10 else 0)
    + (if resourceType t = Forest then 1/20 else 0)
    + (if buildingType t = Park then 1/5 else 0)
    + (if buildingType t = Industrial then - (3/20) else 0)
    + (if buildingType t = Defense then 1/20 else 0)
    + (if level t > 1 then (1/10) * of_int (level t - 1) else 0)"

subsection \<open>The arithmetic of the program\<close>

text \<open>
  \<open>calculateLandValue\<close> above computes in exact rationals. The numbers of the program are
  IEEE 754 binary64 values: the literal \<^verbatim>\<open>0.1\<close> is the binary64 value nearest to one tenth,
  and every \<^verbatim>\<open>+=\<close>, \<^verbatim>\<open>-=\<close> and \<^verbatim>\<open>*\<close> rounds its exact result to the nearest binary64 value,
  ties to the even significand. A finite binary64 value is modelled by the rational it
  denotes. \<open>binary64 r\<close> is the value nearest to \<open>r\<close>: with \<open>2 ^ e \<le> \<bar>r\<bar> < 2 ^ (e + 1)\<close>, a
  multiple of \<open>2 ^ (e - 52)\<close>. Overflow, subnormal numbers and NaN are not modelled; they
  do not occur for levels and land values of the size the game has.
\<close>

definition roundHalfEven :: "rat \<Rightarrow> int" where
  "roundHalfEven r =
    (let n = \<lfloor>r\<rfloor>; f = r - of_int n
     in if f < 1/2 then n else if 1/2 < f then n + 1 else if even n then n else n + 1)"

text \<open>The exponent \<open>e\<close> with \<open>2 ^ e \<le> r < 2 ^ (e + 1)\<close>, for \<open>r > 0\<close>.\<close>

definition ilog2 :: "rat \<Rightarrow> int" where
  "ilog2 r =
    (case quotient_of r of (n, d) \<Rightarrow>
       let e = bitlen n - bitlen d in if 2 powi e \<le> r then e else e - 1)"

definition binary64 :: "rat \<Rightarrow> rat" where
  "binary64 r =
    (if r = 0 then 0
     else let q = 2 powi (ilog2 \<bar>r\<bar> - 52) in of_int (roundHalfEven (r / q)) * q)"

definition fadd :: "rat \<Rightarrow> rat \<Rightarrow> rat" where
  "fadd a b = binary64 (a + b)"

definition fsub :: "rat \<Rightarrow> rat \<Rightarrow> rat" where
  "fsub a b = binary64 (a - b)"

definition fmul :: "rat \<Rightarrow> rat \<Rightarrow> rat" where
  "fmul a b = binary64 (a * b)"

text \<open>
  \<^verbatim>\<open>calculateLandValue\<close> with the arithmetic of the program: the body of the callback, the
  \<^verbatim>\<open>forEach\<close> over the eight offsets, the clamp. The level of a tile is an integer, which
  binary64 holds exactly.
\<close>

definition addNeighbor_f64 :: "TileData \<Rightarrow> rat \<Rightarrow> rat" where
  "addNeighbor_f64 tile v0 =
    (let v1 = (if resourceType tile = Water then fadd v0 (binary64 (1/10)) else v0);
         v2 = (if resourceType tile = Forest then fadd v1 (binary64 (1/20)) else v1);
         v3 = (if buildingType tile = Park then fadd v2 (binary64 (1/5)) else v2);
         v4 = (if buildingType tile = Industrial then fsub v3 (binary64 (3/20)) else v3);
         v5 = (if buildingType tile = Defense then fadd v4 (binary64 (1/20)) else v4);
         v6 = (if level tile > 1
               then fadd v5 (fmul (binary64 (1/10)) (fsub (of_int (level tile)) 1))
               else v5)
     in v6)"

definition landValueStep_f64 :: "Grid \<Rightarrow> int \<Rightarrow> int \<Rightarrow> rat \<Rightarrow> int \<times> int \<Rightarrow> rat" where
  "landValueStep_f64 g px py v d =
    (case d of (dx, dy) \<Rightarrow>
      let nx = px + dx; ny = py + dy
      in if nx \<ge> 0 \<and> nx < GRID_SIZE \<and> ny \<ge> 0 \<and> ny < GRID_SIZE
         then addNeighbor_f64 (g ! nat ny ! nat nx) v else v)"

definition calculateLandValue_f64 :: "Grid \<Rightarrow> int \<Rightarrow> int \<Rightarrow> rat" where
  "calculateLandValue_f64 g px py =
    (let v = foldl (landValueStep_f64 g px py) 1 neighbors
     in max (1/2) (min (5/2) v))"

text \<open>
  The land-value function as the specification words it. The neighbours are the eight
  cells around the position that lie on the grid; the neighbour at column \<open>nx\<close> of row \<open>ny\<close>
  is read from the grid by position. Each neighbour gives a list of addends: 0.1 if it is
  water, 0.05 if it is forest, 0.2 for a Park, -0.15 for Industrial, 0.05 for Defense,
  0.1 * (level - 1) if its level is above 1. The value starts at 1, the addends of all
  neighbours are added one after the other, and the result is clamped to [0.5, 2.5].
\<close>

definition addends_spec :: "TileData \<Rightarrow> rat list" where
  "addends_spec t =
      (if resourceType t = Water then [binary64 (1/10)] else [])
    @ (if resourceType t = Forest then [binary64 (1/20)] else [])
    @ (if buildingType t = Park then [binary64 (1/5)] else [])
    @ (if buildingType t = Industrial then [- binary64 (3/20)] else [])
    @ (if buildingType t = Defense then [binary64 (1/20)] else [])
    @ (if level t > 1 then [fmul (binary64 (1/10)) (binary64 (of_int (level t - 1)))] else [])"

definition eightNeighbors_spec :: "int \<Rightarrow> int \<Rightarrow> (int \<times> int) list" where
  "eightNeighbors_spec px py =
    filter (\<lambda>(nx, ny). 0 \<le> nx \<and> nx \<le> 19 \<and> 0 \<le> ny \<and> ny \<le> 19)
      [(px - 1, py), (px + 1, py), (px, py - 1), (px, py + 1),
       (px - 1, py - 1), (px - 1, py + 1), (px + 1, py - 1), (px + 1, py + 1)]"

definition landValue_spec :: "Grid \<Rightarrow> int \<Rightarrow> int \<Rightarrow> rat" where
  "landValue_spec g px py =
    max (1/2) (min (5/2)
      (foldl fadd 1
         (concat (map (\<lambda>(nx, ny). addends_spec (g ! nat ny ! nat nx))
                    (eightNeighbors_spec px py)))))"

section \<open>News feed (addNewsItem)\<close>

text \<open>\<^verbatim>\<open>[...prev.slice(-12), item]\<close>: the last twelve items, then the new one.\<close>

definition addNewsItem :: "NewsItem \<Rightarrow> NewsItem list \<Rightarrow> NewsItem list" where
  "addNewsItem item prev = drop (length prev - 12) prev @ [item]"

definition notify :: "NewsItem \<Rightarrow> Game \<Rightarrow> Game" where
  "notify item gm = gm\<lparr>newsFeed := addNewsItem item (newsFeed gm)\<rparr>"

section \<open>Transactions (handleTileClick)\<close>

text \<open>
  The loop \<^verbatim>\<open>range.forEach(([dx, dy]) => ...)\<close> that both the demolish and the build
  branch run over the new grid. It assigns to the \<^verbatim>\<open>landValue\<close> field of the tile
  object in place; the tile objects other than the replaced one are shared with the old
  grid, which is dropped when \<^verbatim>\<open>setGrid(newGrid)\<close> is applied.
\<close>

definition recalcStep :: "int \<Rightarrow> int \<Rightarrow> Grid \<Rightarrow> int \<times> int \<Rightarrow> Grid" where
  "recalcStep px py newGrid d =
    (case d of (dx, dy) \<Rightarrow>
      let nx = px + dx; ny = py + dy
      in if inBounds nx ny
         then setTile newGrid nx ny
                ((tileAt newGrid nx ny)\<lparr>landValue := calculateLandValue newGrid nx ny\<rparr>)
         else newGrid)"

definition recalcLandValues :: "(int \<times> int) list \<Rightarrow> int \<Rightarrow> int \<Rightarrow> Grid \<Rightarrow> Grid" where
  "recalcLandValues rng px py newGrid = foldl (recalcStep px py) newGrid rng"

definition demolishRange :: "(int \<times> int) list" where
  "demolishRange = [(-1,0), (1,0), (0,-1), (0,1), (0,0)]"

definition buildRange :: "(int \<times> int) list" where
  "buildRange = [(-1,0), (1,0), (0,-1), (0,1), (0,0), (-1,-1), (-1,1), (1,-1), (1,1)]"

definition affordable :: "CityStats \<Rightarrow> int \<Rightarrow> int \<Rightarrow> int \<Rightarrow> bool" where
  "affordable currentStats cM cW cS \<longleftrightarrow>
     money currentStats \<ge> cM \<and> wood currentStats \<ge> cW \<and> stone currentStats \<ge> cS"

definition debit :: "int \<Rightarrow> int \<Rightarrow> int \<Rightarrow> CityStats \<Rightarrow> CityStats" where
  "debit cM cW cS prev =
     prev\<lparr>money := money prev - cM, wood := wood prev - cW, stone := stone prev - cS\<rparr>"

text \<open>\<^verbatim>\<open>Math.floor(buildingConfig.cost * Math.pow(UPGRADE_MULTIPLIER, currentTile.level))\<close>\<close>

definition upgradeCost :: "int \<Rightarrow> int \<Rightarrow> int" where
  "upgradeCost cost lvl = \<lfloor>of_int cost * (UPGRADE_MULTIPLIER powi lvl)\<rfloor>"

text \<open>The upgrade branch: the tool is a building and the tile already carries it.\<close>

definition upgradeBranch :: "BuildingType \<Rightarrow> int \<Rightarrow> int \<Rightarrow> Game \<Rightarrow> Game" where
  "upgradeBranch tool px py gm =
    (let currentGrid = grid gm;
         currentStats = stats gm;
         currentTile = tileAt currentGrid px py;
         buildingConfig = BUILDINGS tool
     in if level currentTile \<ge> 3 then notify (MaxLevel, neutral) gm
        else
          let cM = upgradeCost (costMoney buildingConfig) (level currentTile);
              cW = upgradeCost (costWood buildingConfig) (level currentTile);
              cS = upgradeCost (costStone buildingConfig) (level currentTile)
          in if affordable currentStats cM cW cS
             then notify (UpgradedTo (name buildingConfig) (level currentTile + 1), positive)
                    (gm\<lparr>stats := debit cM cW cS (stats gm),
                        grid := setTile currentGrid px py
                                  (currentTile\<lparr>level := level currentTile + 1\<rparr>)\<rparr>)
             else notify (UpgradeCosts cM cW cS, negative) gm)"

text \<open>The demolish branch: the tool is \<^verbatim>\<open>BuildingType.None\<close>.\<close>

definition demolishBranch :: "int \<Rightarrow> int \<Rightarrow> Game \<Rightarrow> Game" where
  "demolishBranch px py gm =
    (let currentGrid = grid gm;
         currentStats = stats gm;
         currentTile = tileAt currentGrid px py
     in if buildingType currentTile \<noteq> NoneB
        then
          let demolishCost = 5
          in if money currentStats \<ge> demolishCost
             then
               let newGrid = recalcLandValues demolishRange px py
                     (setTile currentGrid px py
                        (currentTile\<lparr>buildingType := NoneB, level := 1\<rparr>));
                   s1 = (stats gm)\<lparr>money := money (stats gm) - demolishCost\<rparr>;
                   s2 = (if resourceType currentTile = Forest
                         then s1\<lparr>wood := wood s1 + 10\<rparr> else s1)
               in gm\<lparr>grid := newGrid, stats := s2\<rparr>
             else gm
        else gm)"

text \<open>The build branch. The identifier of a new boat is \<^verbatim>\<open>Date.now().toString()\<close>, a
  parameter here.\<close>

definition buildBranch :: "BuildingType \<Rightarrow> string \<Rightarrow> int \<Rightarrow> int \<Rightarrow> Game \<Rightarrow> Game" where
  "buildBranch tool now px py gm =
    (let currentGrid = grid gm;
         currentStats = stats gm;
         currentTile = tileAt currentGrid px py;
         buildingConfig = BUILDINGS tool
     in if buildingType currentTile = NoneB
        then
          if resourceType currentTile = Water \<and> tool \<noteq> Port \<and> tool \<noteq> Road
          then notify (OnlyPortsOrBridgesOnWater, negative) gm
          else if tool = Port \<and> resourceType currentTile \<noteq> Water
          then notify (PortsMustBeOnWater, negative) gm
          else if affordable currentStats (costMoney buildingConfig)
                    (costWood buildingConfig) (costStone buildingConfig)
          then
            let newStats = debit (costMoney buildingConfig) (costWood buildingConfig)
                             (costStone buildingConfig) (stats gm);
                newBoats = (if tool = Port
                            then boats gm @ [\<lparr>boat_id = now, boat_x = of_int px,
                                   boat_y = of_int py, targetX = None, targetY = None,
                                   boat_state = idle\<rparr>]
                            else boats gm);
                newGrid = recalcLandValues buildRange px py
                            (setTile currentGrid px py
                               (currentTile\<lparr>buildingType := tool, level := 1\<rparr>))
            in gm\<lparr>stats := newStats, boats := newBoats, grid := newGrid\<rparr>
          else notify (InsufficientResources (name buildingConfig), negative) gm
        else gm)"

definition handleTileClick :: "BuildingType \<Rightarrow> string \<Rightarrow> int \<Rightarrow> int \<Rightarrow> Game \<Rightarrow> Game" where
  "handleTileClick tool now px py gm =
    (if \<not> gameStarted gm then gm
     else if px < 0 \<or> px \<ge> GRID_SIZE \<or> py < 0 \<or> py \<ge> GRID_SIZE then gm
     else
       let currentTile = tileAt (grid gm) px py
       in if \<not> explored currentTile then gm
          else if tool \<noteq> NoneB \<and> buildingType currentTile = tool
          then upgradeBranch tool px py gm
          else if tool = NoneB then demolishBranch px py gm
          else buildBranch tool now px py gm)"

section \<open>Economy tick\<close>

text \<open>
  The accumulators of the sweep over \<^verbatim>\<open>gridRef.current.flat()\<close>. \<^verbatim>\<open>buildingCounts\<close> is a
  dictionary read with \<^verbatim>\<open>|| 0\<close>.
\<close>

record Daily =
  dailyIncome :: rat
  dailyPopGrowth :: int
  dailyWood :: int
  dailyStone :: int
  dailyFood :: int
  buildingCounts :: "BuildingType \<Rightarrow> int option"

definition countOf :: "(BuildingType \<Rightarrow> int option) \<Rightarrow> BuildingType \<Rightarrow> int" where
  "countOf m k = (case m k of None \<Rightarrow> 0 | Some n \<Rightarrow> n)"

definition emptyDaily :: Daily where
  "emptyDaily = \<lparr>dailyIncome = 0, dailyPopGrowth = 0, dailyWood = 0, dailyStone = 0,
     dailyFood = 0, buildingCounts = Map.empty\<rparr>"

definition sweepTile :: "Daily \<Rightarrow> TileData \<Rightarrow> Daily" where
  "sweepTile d tile =
    (if buildingType tile \<noteq> NoneB
     then
       let config = BUILDINGS (buildingType tile);
           levelMult = level tile;
           income = of_int (incomeGen config * levelMult) * landValue tile;
           d1 = d\<lparr>dailyIncome := dailyIncome d + income,
                  dailyPopGrowth := dailyPopGrowth d + popGen config * levelMult,
                  buildingCounts := (buildingCounts d)(buildingType tile \<mapsto>
                     countOf (buildingCounts d) (buildingType tile) + 1)\<rparr>;
           d2 = (if buildingType tile = Farm
                 then d1\<lparr>dailyFood := dailyFood d1 + 15 * levelMult\<rparr> else d1);
           d3 = (if buildingType tile = Industrial
                 then (if resourceType tile = Forest
                       then d2\<lparr>dailyWood := dailyWood d2 + 5 * levelMult\<rparr>
                       else if resourceType tile = Stone
                       then d2\<lparr>dailyStone := dailyStone d2 + 3 * levelMult\<rparr>
                       else d2\<lparr>dailyIncome := dailyIncome d2 + of_int (5 * levelMult)\<rparr>)
                 else d2);
           d4 = (if buildingType tile = Port
                 then d3\<lparr>dailyIncome := dailyIncome d3 + of_int (5 * levelMult)\<rparr> else d3)
       in d4
     else d)"

definition sweep :: "Grid \<Rightarrow> Daily" where
  "sweep g = foldl sweepTile emptyDaily (concat g)"

text \<open>
  The updater passed to \<^verbatim>\<open>setStats\<close>: the new ledger and the news items it emits, in
  order. \<open>r1\<close> and \<open>r2\<close> are the two draws of \<^verbatim>\<open>Math.random()\<close>, in the unit interval.
  The evaluation of the active goal and the request for a news event write to state that
  no tick reads back and are not modelled.
\<close>

definition economyUpdate :: "Daily \<Rightarrow> rat \<Rightarrow> rat \<Rightarrow> CityStats \<Rightarrow> CityStats \<times> NewsItem list" where
  "economyUpdate d r1 r2 prev =
    (let foodConsumption = \<lceil>of_int (population prev) * (1/5 :: rat)\<rceil>;
         newFood0 = food prev + dailyFood d - foodConsumption;
         starving = (newFood0 < 0);
         newFood = (if newFood0 < 0 then 0 else newFood0);
         resCount = countOf (buildingCounts d) Residential;
         maxPop = (resCount * 50) * 3;
         newPop0 = population prev + (if starving then - 5 else dailyPopGrowth d);
         newPop1 = (if newPop0 > maxPop then maxPop else newPop0);
         newPop = (if newPop1 < 0 then 0 else newPop1);
         nextEra =
           (if era prev = Primitive \<and> newPop \<ge> thr_pop IndustrialE
                 \<and> money prev \<ge> thr_money IndustrialE then IndustrialE
            else if era prev = IndustrialE \<and> newPop \<ge> thr_pop Modern
                 \<and> money prev \<ge> thr_money Modern then Modern
            else if era prev = Modern \<and> newPop \<ge> thr_pop Future
                 \<and> money prev \<ge> thr_money Future then Future
            else era prev);
         news1 = (if nextEra \<noteq> era prev then [(EraAdvance nextEra, positive)] else []);
         nextWeather = (if r1 > 19/20 then [Sunny, Rain, Snow] ! nat \<lfloor>r2 * 3\<rfloor>
                        else weather prev);
         newStats = \<lparr>money = \<lfloor>of_int (money prev) + dailyIncome d\<rfloor>,
                     wood = wood prev + dailyWood d,
                     stone = stone prev + dailyStone d,
                     food = newFood,
                     population = newPop,
                     day = day prev + 1,
                     era = nextEra,
                     weather = nextWeather\<rparr>;
         news2 = (if starving \<and> population prev > 0 \<and> day prev mod 3 = 0
                  then [(FoodShortage, negative)] else [])
     in (newStats, news1 @ news2))"

definition economyTick :: "rat \<Rightarrow> rat \<Rightarrow> Game \<Rightarrow> Game" where
  "economyTick r1 r2 gm =
    (if \<not> gameStarted gm then gm
     else
       case economyUpdate (sweep (grid gm)) r1 r2 (stats gm) of
         (newStats, news) \<Rightarrow>
           gm\<lparr>stats := newStats,
              newsFeed := foldl (\<lambda>feed item. addNewsItem item feed) (newsFeed gm) news\<rparr>)"

section \<open>Hostile agents\<close>

text \<open>Spawning; the four draws of \<^verbatim>\<open>Math.random()\<close> and the new identifier are parameters.\<close>

definition spawnEnemy :: "rat \<Rightarrow> rat \<Rightarrow> rat \<Rightarrow> rat \<Rightarrow> string \<Rightarrow> Game \<Rightarrow> Game" where
  "spawnEnemy rSpawn rEdge rPos rNews newId gm =
    (let currentStats = stats gm;
         spawnChance = min (3/10) (of_int (population currentStats) / 500)
     in if rSpawn < spawnChance \<and> length (enemies gm) < 10
        then
          let edge = \<lfloor>rEdge * 4\<rfloor>;
              p0 = (0, 0);
              p1 = (if edge = 0 then (rPos * of_int GRID_SIZE, 0) else p0);
              p2 = (if edge = 1 then (rPos * of_int GRID_SIZE, of_int GRID_SIZE - 1) else p1);
              p3 = (if edge = 2 then (0, rPos * of_int GRID_SIZE) else p2);
              p4 = (if edge = 3 then (of_int GRID_SIZE - 1, rPos * of_int GRID_SIZE) else p3);
              newEnemy = \<lparr>enemy_id = newId, enemy_x = fst p4, enemy_y = snd p4,
                           hp = 50 + (if era currentStats = Future then 200 else 0),
                           maxHp = 50 + (if era currentStats = Future then 200 else 0),
                           attackCooldown = 0\<rparr>;
              gm1 = gm\<lparr>enemies := enemies gm @ [newEnemy]\<rparr>
          in if rNews > 7/10 then notify (HostilesDetected, negative) gm1 else gm1
        else gm)"

text \<open>The cells in the order of the nested loops: \<open>y\<close> outside, \<open>x\<close> inside.\<close>

definition scanCells :: "(int \<times> int) list" where
  "scanCells = concat (map (\<lambda>cy. map (\<lambda>cx. (cx, cy)) [0..GRID_SIZE - 1]) [0..GRID_SIZE - 1])"

definition targetStep :: "Grid \<Rightarrow> Enemy \<Rightarrow> int \<times> int \<times> rat \<Rightarrow> int \<times> int \<Rightarrow> int \<times> int \<times> rat" where
  "targetStep g enemy acc c =
    (case acc of (tgX, tgY, minDist) \<Rightarrow>
      case c of (cx, cy) \<Rightarrow>
        if buildingType (tileAt g cx cy) \<noteq> NoneB \<and> buildingType (tileAt g cx cy) \<noteq> Road
        then
          let dist = \<bar>enemy_x enemy - of_int cx\<bar> + \<bar>enemy_y enemy - of_int cy\<bar>
          in if dist < minDist then (cx, cy, dist) else acc
        else acc)"

definition findTarget :: "Grid \<Rightarrow> Enemy \<Rightarrow> int \<times> int \<times> rat" where
  "findTarget g enemy = foldl (targetStep g enemy) (- 1, - 1, 999) scanCells"

text \<open>\<^verbatim>\<open>Math.round\<close> rounds halves up.\<close>

definition jsRound :: "rat \<Rightarrow> int" where
  "jsRound r = \<lfloor>r + 1/2\<rfloor>"

definition turretRange :: "(int \<times> int) list" where
  "turretRange = [(-1,0), (1,0), (0,-1), (0,1), (0,0), (-1,-1), (-1,1), (1,-1), (1,1)]"

definition turretStep :: "Grid \<Rightarrow> int \<Rightarrow> int \<Rightarrow> int \<Rightarrow> int \<times> int \<Rightarrow> int" where
  "turretStep g gridX gridY h d =
    (case d of (dx, dy) \<Rightarrow>
      let tx = gridX + dx; ty = gridY + dy
      in if inBounds tx ty
         then (let tile = tileAt g tx ty
               in if buildingType tile = Defense then h - 5 * level tile else h)
         else h)"

definition turretDamage :: "Grid \<Rightarrow> int \<Rightarrow> int \<Rightarrow> int \<Rightarrow> int" where
  "turretDamage g gridX gridY h = foldl (turretStep g gridX gridY) h turretRange"

text \<open>
  The callback of \<^verbatim>\<open>prevEnemies.map\<close> for one enemy: the enemy it returns, and whether it
  steals (the call of \<^verbatim>\<open>setStats\<close> under \<^verbatim>\<open>Math.random() > 0.8\<close>, whose draw is \<open>r\<close>).
\<close>

definition enemyStep :: "Grid \<Rightarrow> rat \<Rightarrow> Enemy \<Rightarrow> Enemy \<times> bool" where
  "enemyStep g r enemy =
    (case findTarget g enemy of (tgX, tgY, minDist) \<Rightarrow>
      if tgX = - 1 then (enemy, False)
      else
        let dx = of_int tgX - enemy_x enemy;
            dy = of_int tgY - enemy_y enemy;
            moveSpeed = 1/10;
            nx = (if minDist > 1/2 then enemy_x enemy + sgn dx * moveSpeed else enemy_x enemy);
            ny = (if minDist > 1/2 then enemy_y enemy + sgn dy * moveSpeed else enemy_y enemy);
            h = turretDamage g (jsRound nx) (jsRound ny) (hp enemy)
        in if minDist < 1 \<and> attackCooldown enemy \<le> 0
           then (enemy\<lparr>enemy_x := nx, enemy_y := ny, hp := h, attackCooldown := 5\<rparr>,
                 r > 4/5)
           else (enemy\<lparr>enemy_x := nx, enemy_y := ny, hp := h,
                   attackCooldown := max 0 (attackCooldown enemy - 1)\<rparr>, False))"

definition steal :: "CityStats \<Rightarrow> CityStats" where
  "steal s = s\<lparr>money := max 0 (money s - 10), food := max 0 (food s - 5)\<rparr>"

text \<open>The map over the enemies, threading the ledger; enemy number \<open>i\<close> draws \<open>rnd i\<close>.\<close>

fun enemyMap :: "Grid \<Rightarrow> (nat \<Rightarrow> rat) \<Rightarrow> nat \<Rightarrow> Enemy list \<Rightarrow> CityStats \<Rightarrow> Enemy list \<times> CityStats" where
  "enemyMap g rnd i [] s = ([], s)"
| "enemyMap g rnd i (enemy # rest) s =
    (case enemyStep g (rnd i) enemy of
      (enemy', steals) \<Rightarrow>
        (case enemyMap g rnd (Suc i) rest (if steals then steal s else s) of
          (rest', s') \<Rightarrow> (enemy' # rest', s')))"

definition moveEnemies :: "(nat \<Rightarrow> rat) \<Rightarrow> Game \<Rightarrow> Game" where
  "moveEnemies rnd gm =
    (case enemyMap (grid gm) rnd 0 (enemies gm) (stats gm) of
      (moved, s') \<Rightarrow> gm\<lparr>enemies := filter (\<lambda>e. hp e > 0) moved, stats := s'\<rparr>)"

definition enemyTick ::
  "rat \<Rightarrow> rat \<Rightarrow> rat \<Rightarrow> rat \<Rightarrow> string \<Rightarrow> (nat \<Rightarrow> rat) \<Rightarrow> Game \<Rightarrow> Game" where
  "enemyTick rSpawn rEdge rPos rNews newId rnd gm =
    (if \<not> gameStarted gm then gm
     else moveEnemies rnd (spawnEnemy rSpawn rEdge rPos rNews newId gm))"

definition handleEnemyClick :: "string \<Rightarrow> Game \<Rightarrow> Game" where
  "handleEnemyClick ident gm =
     gm\<lparr>enemies := filter (\<lambda>e. hp e > 0)
          (map (\<lambda>e. if enemy_id e = ident then e\<lparr>hp := hp e - 20\<rparr> else e) (enemies gm))\<rparr>"

section \<open>Explorer boats\<close>

definition unexploredTiles :: "Grid \<Rightarrow> (int \<times> int) list" where
  "unexploredTiles g = filter (\<lambda>(cx, cy). \<not> explored (tileAt g cx cy)) scanCells"

definition closestStep :: "Boat \<Rightarrow> (int \<times> int) \<times> rat \<Rightarrow> int \<times> int \<Rightarrow> (int \<times> int) \<times> rat" where
  "closestStep boat acc t =
    (case acc of (closest, minD) \<Rightarrow>
      let d = \<bar>of_int (fst t) - boat_x boat\<bar> + \<bar>of_int (snd t) - boat_y boat\<bar>
      in if d < minD then (t, d) else acc)"

text \<open>\<^verbatim>\<open>unexploredTiles[0]\<close> is read only after the test that the list is not empty.\<close>

definition findClosest :: "Boat \<Rightarrow> (int \<times> int) list \<Rightarrow> int \<times> int" where
  "findClosest boat ts = fst (foldl (closestStep boat) (hd ts, 999) ts)"

text \<open>
  \<^verbatim>\<open>!boat.targetX || grid[boat.targetY][boat.targetX].explored\<close>: a target column that is
  undefined or zero counts as no target. The program sets both coordinates together, so
  a column without a row does not occur; the model asks for a new target there.
\<close>

definition needsTarget :: "Grid \<Rightarrow> Boat \<Rightarrow> bool" where
  "needsTarget g boat =
    (case (targetX boat, targetY boat) of
       (Some tx, Some ty) \<Rightarrow> tx = 0 \<or> explored (tileAt g tx ty)
     | _ \<Rightarrow> True)"

definition retarget :: "Grid \<Rightarrow> (int \<times> int) list \<Rightarrow> Boat \<Rightarrow> Boat" where
  "retarget g ts boat =
    (if needsTarget g boat
     then (let closest = findClosest boat ts
           in boat\<lparr>targetX := Some (fst closest), targetY := Some (snd closest),
                   boat_state := exploring\<rparr>)
     else boat)"

definition revealRange :: "(int \<times> int) list" where
  "revealRange = [(0,0), (1,0), (-1,0), (0,1), (0,-1), (1,1), (-1,-1)]"

text \<open>
  One round of the \<^verbatim>\<open>range.forEach\<close> inside the updater of \<^verbatim>\<open>setGrid\<close>: the grid, the
  ledger and the flag \<^verbatim>\<open>foundSomething\<close>.
\<close>

definition revealStep ::
  "int \<Rightarrow> int \<Rightarrow> Grid \<times> CityStats \<times> bool \<Rightarrow> int \<times> int \<Rightarrow> Grid \<times> CityStats \<times> bool" where
  "revealStep gx gy acc d =
    (case acc of (ng, s, foundSomething) \<Rightarrow>
      case d of (rx, ry) \<Rightarrow>
        if gy + ry \<ge> 0 \<and> gy + ry < GRID_SIZE \<and> gx + rx \<ge> 0 \<and> gx + rx < GRID_SIZE
        then
          let t = tileAt ng (gx + rx) (gy + ry)
          in if \<not> explored t
             then
               let ng' = setTile ng (gx + rx) (gy + ry) (t\<lparr>explored := True\<rparr>)
               in if resourceType t \<noteq> NoneR \<and> resourceType t \<noteq> Water
                  then
                    let s1 = (if resourceType t = Forest then s\<lparr>wood := wood s + 20\<rparr> else s);
                        s2 = (if resourceType t = Stone then s1\<lparr>stone := stone s1 + 10\<rparr> else s1)
                    in (ng', s2, True)
                  else (ng', s, foundSomething)
             else acc
        else acc)"

text \<open>
  The reveal at the rounded position \<open>(gx, gy)\<close>. The program sets the local flag
  \<^verbatim>\<open>foundSomething\<close> to false, passes the loop to \<^verbatim>\<open>setGrid\<close> as a state updater and
  tests the flag as soon as \<^verbatim>\<open>setGrid\<close> has returned. The updater is only queued then
  and has not run, so the test reads false: the news item and the money bonus under
  \<^verbatim>\<open>if (foundSomething)\<close> are never delivered. The queued updater then runs the loop,
  which reveals the tiles and credits wood and stone; what it writes to the flag is not
  read again.
\<close>

definition revealArea ::
  "int \<Rightarrow> int \<Rightarrow> Grid \<times> CityStats \<times> NewsItem list \<Rightarrow> Grid \<times> CityStats \<times> NewsItem list" where
  "revealArea gx gy st =
    (case st of (g, s, feed) \<Rightarrow>
      let foundSomething = False;
          tested = (if foundSomething
                    then (s\<lparr>money := money s + 50\<rparr>,
                          addNewsItem (ExpeditionDiscovered, positive) feed)
                    else (s, feed))
      in case foldl (revealStep gx gy) (g, fst tested, foundSomething) revealRange of
           (ng, s', written) \<Rightarrow> (ng, s', snd tested))"

text \<open>
  The callback of \<^verbatim>\<open>prev.map\<close> for one boat. The target is chosen on the snapshot
  \<open>g0\<close> of the grid taken at the start of the tick; the reveal runs on the current grid.
  After \<open>retarget\<close> both target coordinates are set (it keeps a boat only when both
  are, and sets both otherwise), so \<open>the\<close> is applied to \<open>Some\<close> values only.
\<close>

definition boatStep ::
  "Grid \<Rightarrow> (int \<times> int) list \<Rightarrow> Boat \<Rightarrow> Grid \<times> CityStats \<times> NewsItem list
     \<Rightarrow> Boat \<times> Grid \<times> CityStats \<times> NewsItem list" where
  "boatStep g0 ts boat0 st =
    (let boat = retarget g0 ts boat0;
         dx = of_int (the (targetX boat)) - boat_x boat;
         dy = of_int (the (targetY boat)) - boat_y boat;
         speed = 1/5;
         nx = boat_x boat + sgn dx * speed;
         ny = boat_y boat + sgn dy * speed;
         st' = (if \<bar>dx\<bar> < 3/2 \<and> \<bar>dy\<bar> < 3/2
                then revealArea (jsRound nx) (jsRound ny) st else st)
     in (boat\<lparr>boat_x := nx, boat_y := ny\<rparr>, st'))"

fun boatMap ::
  "Grid \<Rightarrow> (int \<times> int) list \<Rightarrow> Boat list \<Rightarrow> Grid \<times> CityStats \<times> NewsItem list
     \<Rightarrow> Boat list \<times> Grid \<times> CityStats \<times> NewsItem list" where
  "boatMap g0 ts [] st = ([], st)"
| "boatMap g0 ts (boat # rest) st =
    (case boatStep g0 ts boat st of
      (boat', st') \<Rightarrow>
        (case boatMap g0 ts rest st' of (rest', st'') \<Rightarrow> (boat' # rest', st'')))"

definition boatTick :: "Game \<Rightarrow> Game" where
  "boatTick gm =
    (if \<not> gameStarted gm then gm
     else if boats gm = [] then gm
     else
       let ts = unexploredTiles (grid gm)
       in if ts = [] then gm
          else
            case boatMap (grid gm) ts (boats gm) (grid gm, stats gm, newsFeed gm) of
              (bs, g, s, feed) \<Rightarrow> gm\<lparr>boats := bs, grid := g, stats := s, newsFeed := feed\<rparr>)"

section \<open>Auxiliary notions for the statements\<close>

text \<open>The order of the eras.\<close>

fun eraRank :: "Era \<Rightarrow> nat" where
  "eraRank Primitive = 0"
| "eraRank IndustrialE = 1"
| "eraRank Modern = 2"
| "eraRank Future = 3"

text \<open>
  Concrete states for the examples. \<open>mkGrid f\<close> is the grid whose tile at column \<open>cx\<close> of
  row \<open>cy\<close> is \<open>f cx cy\<close> with its own coordinates, built row by row as
  \<^verbatim>\<open>createInitialGrid\<close> does. The plain grid has no buildings and no resources, every
  tile explored, at level 1 and land value 1. (The land mask, the resources and the fog
  of a real session come from \<^verbatim>\<open>Math.sqrt\<close>, \<^verbatim>\<open>Math.sin\<close> and \<^verbatim>\<open>Math.random\<close>; the
  examples below only depend on the tiles around the ones they click.)
\<close>

definition mkGrid :: "(int \<Rightarrow> int \<Rightarrow> TileData) \<Rightarrow> Grid" where
  "mkGrid f =
     map (\<lambda>cy. map (\<lambda>cx. (f cx cy)\<lparr>tile_x := cx, tile_y := cy\<rparr>) [0..GRID_SIZE - 1])
       [0..GRID_SIZE - 1]"

definition plainTile :: TileData where
  "plainTile = \<lparr>tile_x = 0, tile_y = 0, buildingType = NoneB, variant = 0,
     resourceType = NoneR, landValue = 1, level = 1, explored = True\<rparr>"

definition plainGrid :: Grid where
  "plainGrid = mkGrid (\<lambda>cx cy. plainTile)"

text \<open>\<^verbatim>\<open>INITIAL_STATS\<close> with day 1, the Primitive era and sunny weather.\<close>

definition initialStats :: CityStats where
  "initialStats = \<lparr>money = 1500, wood = 100, stone = 50, food = 200, population = 0,
     day = 1, era = Primitive, weather = Sunny\<rparr>"

definition plainGame :: Game where
  "plainGame = \<lparr>gameStarted = True, grid = plainGrid, stats = initialStats,
     enemies = [], boats = [], newsFeed = []\<rparr>"

text \<open>A grid with twenty houses in row 10, and a rich, populous ledger on it.\<close>

definition resTile :: TileData where
  "resTile = plainTile\<lparr>buildingType := Residential\<rparr>"

definition townGrid :: Grid where
  "townGrid = mkGrid (\<lambda>cx cy. if cy = 10 then resTile else plainTile)"

definition townGame :: Game where
  "townGame = plainGame\<lparr>grid := townGrid,
     stats := initialStats\<lparr>money := 70000, population := 2000, food := 1000\<rparr>\<rparr>"

definition hungryGame :: Game where
  "hungryGame = townGame\<lparr>stats := (stats townGame)\<lparr>food := 100\<rparr>\<rparr>"

text \<open>What a click with a building tool has to pay on a tile: the upgrade cost when the
  tile already carries the tool, the price of the building otherwise.\<close>

definition clickCost :: "BuildingType \<Rightarrow> TileData \<Rightarrow> int \<times> int \<times> int" where
  "clickCost tool t =
    (let config = BUILDINGS tool
     in if buildingType t = tool
        then (upgradeCost (costMoney config) (level t), upgradeCost (costWood config) (level t),
              upgradeCost (costStone config) (level t))
        else (costMoney config, costWood config, costStone config))"

text \<open>The ledger of the specification's rejected-purchase scenario.\<close>

definition poorGame :: Game where
  "poorGame = plainGame\<lparr>stats := initialStats\<lparr>money := 50, wood := 20, stone := 5\<rparr>\<rparr>"

text \<open>The recomputation invariant: every tile carries the land value of the grid it is in.\<close>

definition landValuesCurrent :: "Grid \<Rightarrow> bool" where
  "landValuesCurrent g =
     list_all (\<lambda>(cx, cy). landValue (tileAt g cx cy) = calculateLandValue g cx cy) scanCells"

text \<open>The plain game after a Park has been built at (5, 5).\<close>

definition parkGame :: Game where
  "parkGame = handleTileClick Park ''p'' 5 5 plainGame"

text \<open>The offset \<open>d\<close> from \<open>(gx, gy)\<close> leads to an in-bounds tile that is not yet explored
  and carries the resource \<open>r\<close>.\<close>

definition freshAt :: "Grid \<Rightarrow> int \<Rightarrow> int \<Rightarrow> ResourceType \<Rightarrow> int \<times> int \<Rightarrow> bool" where
  "freshAt g gx gy r d =
    (case d of (rx, ry) \<Rightarrow>
       inBounds (gx + rx) (gy + ry) \<and> \<not> explored (tileAt g (gx + rx) (gy + ry))
     \<and> resourceType (tileAt g (gx + rx) (gy + ry)) = r)"

text \<open>
  A grid as \<^verbatim>\<open>createInitialGrid\<close> generates it for \<^verbatim>\<open>GRID_SIZE = 20\<close>. The main island is
  the set of cells with \<^verbatim>\<open>dist < 4.5 + nVal\<close>, where \<^verbatim>\<open>dist\<close> is the distance from (10, 10)
  and \<^verbatim>\<open>nVal\<close> the sine noise of the cell; \<open>mainIsland\<close> tabulates that test, row by row, as
  the first and the last column that pass it (the nearest miss is 0.06 away from the
  bound). The three satellite islands and the fog, \<^verbatim>\<open>dist < 6\<close>, are as the code has them.
  No land tile carries a resource, one outcome of the random seeding.
\<close>

definition mainIsland :: "int \<Rightarrow> int \<Rightarrow> bool" where
  "mainIsland cx cy =
    (if cy = 6 then 8 \<le> cx \<and> cx \<le> 10
     else if cy = 7 then 7 \<le> cx \<and> cx \<le> 14
     else if 8 \<le> cy \<and> cy \<le> 11 then 7 \<le> cx \<and> cx \<le> 15
     else if cy = 12 then 8 \<le> cx \<and> cx \<le> 14
     else if cy = 13 then 8 \<le> cx \<and> cx \<le> 13
     else if cy = 14 then 9 \<le> cx \<and> cx \<le> 12
     else False)"

definition isLand :: "int \<Rightarrow> int \<Rightarrow> bool" where
  "isLand cx cy =
    (if mainIsland cx cy then True
     else if \<bar>cx - 3\<bar> < 2 \<and> \<bar>cy - 3\<bar> < 2 then True
     else if \<bar>cx - 16\<bar> < 3 \<and> \<bar>cy - 15\<bar> < 2 then True
     else if \<bar>cx - 14\<bar> < 2 \<and> \<bar>cy - 4\<bar> < 2 then True
     else False)"

definition islandTile :: "int \<Rightarrow> int \<Rightarrow> TileData" where
  "islandTile cx cy =
    plainTile\<lparr>resourceType := (if isLand cx cy then NoneR else Water),
              explored := ((cx - 10) * (cx - 10) + (cy - 10) * (cy - 10) < 6 * 6)\<rparr>"

definition islandGrid :: Grid where
  "islandGrid = mkGrid islandTile"

definition islandGame :: Game where
  "islandGame = plainGame\<lparr>grid := islandGrid\<rparr>"

text \<open>
  The generated grid with resources on the south-east island, which lies in the fog:
  forest at (15, 14), stone at (16, 14), both unexplored, and forest at the explored tile
  (14, 14).
\<close>

definition fogGrid :: Grid where
  "fogGrid =
     setTile (setTile (setTile islandGrid
       15 14 ((tileAt islandGrid 15 14)\<lparr>resourceType := Forest\<rparr>))
       16 14 ((tileAt islandGrid 16 14)\<lparr>resourceType := Stone\<rparr>))
       14 14 ((tileAt islandGrid 14 14)\<lparr>resourceType := Forest\<rparr>)"

text \<open>The level of a tile is between 1 and 3, and an empty tile is at level 1.\<close>

definition tileLevelOK :: "TileData \<Rightarrow> bool" where
  "tileLevelOK t \<longleftrightarrow> 1 \<le> level t \<and> level t \<le> 3 \<and> (buildingType t \<noteq> NoneB \<or> level t = 1)"

definition levelsOK :: "Grid \<Rightarrow> bool" where
  "levelsOK g = list_all (list_all tileLevelOK) g"

text \<open>The generated grid after a Park has been built on the land tile (10, 10) and upgraded
  twice, to level 3.\<close>

definition park3Game :: Game where
  "park3Game =
     handleTileClick Park ''u2'' 10 10
       (handleTileClick Park ''u1'' 10 10 (handleTileClick Park ''p'' 10 10 islandGame))"

text \<open>The plain game after a Defense has been built at (10, 10).\<close>

definition fortGame :: Game where
  "fortGame = handleTileClick Defense ''f'' 10 10 plainGame"

text \<open>A Defense at (10, 10) and, beside it, a hostile with 5 hit points left.\<close>

definition raider :: Enemy where
  "raider = \<lparr>enemy_id = ''e1'', enemy_x = 103/10, enemy_y = 10, hp = 5, maxHp = 50,
     attackCooldown = 0\<rparr>"

definition turretGame :: Game where
  "turretGame =
     plainGame\<lparr>grid := setTile plainGrid 10 10 ((tileAt plainGrid 10 10)\<lparr>buildingType := Defense\<rparr>),
       enemies := [raider]\<rparr>"

text \<open>
  The generated grid with a Park at level 3 at (9, 10), an Industrial at (11, 10), forest
  at (10, 9) and a Defense at level 2 at (10, 11); a grid of Parks at level 3; a grid of
  Industrial tiles.
\<close>

definition valueGrid :: Grid where
  "valueGrid =
     setTile (setTile (setTile (setTile islandGrid
       9 10 ((tileAt islandGrid 9 10)\<lparr>buildingType := Park, level := 3\<rparr>))
       11 10 ((tileAt islandGrid 11 10)\<lparr>buildingType := Industrial\<rparr>))
       10 9 ((tileAt islandGrid 10 9)\<lparr>resourceType := Forest\<rparr>))
       10 11 ((tileAt islandGrid 10 11)\<lparr>buildingType := Defense, level := 2\<rparr>)"

definition parkField :: Grid where
  "parkField = mkGrid (\<lambda>cx cy. plainTile\<lparr>buildingType := Park, level := 3\<rparr>)"

definition factoryField :: Grid where
  "factoryField = mkGrid (\<lambda>cx cy. plainTile\<lparr>buildingType := Industrial\<rparr>)"

section \<open>Facts about the land value\<close>

lemma addNeighbor_bonus: "addNeighbor t v = v + neighborBonus_spec t"
  by (simp add: addNeighbor_def neighborBonus_spec_def Let_def)

lemma foldl_landValueStep:
  "foldl (landValueStep g px py) v ds =
     v + sum_list (map (\<lambda>(nx, ny). neighborBonus_spec (tileAt g nx ny))
           (filter (\<lambda>(nx, ny). inBounds nx ny) (map (\<lambda>(dx, dy). (px + dx, py + dy)) ds)))"
proof (induction ds arbitrary: v)
  case Nil
  show ?case by simp
next
  case (Cons d ds)
  obtain dx dy where d: "d = (dx, dy)" by (cases d)
  have step: "landValueStep g px py v d =
      (if inBounds (px + dx) (py + dy)
       then v + neighborBonus_spec (tileAt g (px + dx) (py + dy)) else v)"
    by (simp add: d landValueStep_def Let_def addNeighbor_bonus)
  show ?case
    by (simp add: Cons.IH step) (simp add: d)
qed

lemma addNeighbor_f64_addends: "addNeighbor_f64 t v = foldl fadd v (addends_spec t)"
  by (simp add: addNeighbor_f64_def addends_spec_def Let_def fadd_def fsub_def)

lemma foldl_landValueStep_f64:
  "foldl (landValueStep_f64 g px py) v ds =
     foldl fadd v
       (concat (map (\<lambda>(nx, ny). addends_spec (g ! nat ny ! nat nx))
          (filter (\<lambda>(nx, ny). 0 \<le> nx \<and> nx \<le> 19 \<and> 0 \<le> ny \<and> ny \<le> 19)
             (map (\<lambda>(dx, dy). (px + dx, py + dy)) ds))))"
proof (induction ds arbitrary: v)
  case Nil
  show ?case by simp
next
  case (Cons d ds)
  obtain dx dy where d: "d = (dx, dy)" by (cases d)
  have step: "landValueStep_f64 g px py v d =
      (if 0 \<le> px + dx \<and> px + dx \<le> 19 \<and> 0 \<le> py + dy \<and> py + dy \<le> 19
       then foldl fadd v (addends_spec (g ! nat (py + dy) ! nat (px + dx))) else v)"
    by (simp add: d landValueStep_f64_def Let_def addNeighbor_f64_addends)
  show ?case
    by (simp add: Cons.IH step) (auto simp add: d)
qed

text \<open>
  Claim C9. The land value computed by \<^verbatim>\<open>calculateLandValue\<close>, in the arithmetic of the
  program, is a function of the grid and the position alone: it starts at 1 and, for each
  of the eight neighbours that is on the grid, adds 0.1 for water, 0.05 for forest, 0.2
  for a Park, -0.15 for Industrial, 0.05 for Defense and 0.1 * (level - 1) for a level
  above 1, and the sum is clamped to the interval from 0.5 to 2.5.
\<close>

theorem calculateLandValue_spec:
  "calculateLandValue_f64 g px py = landValue_spec g px py
   \<and> 1/2 \<le> calculateLandValue_f64 g px py \<and> calculateLandValue_f64 g px py \<le> 5/2"
proof -
  have "map (\<lambda>(dx, dy). (px + dx, py + dy)) neighbors =
        [(px - 1, py), (px + 1, py), (px, py - 1), (px, py + 1),
         (px - 1, py - 1), (px - 1, py + 1), (px + 1, py - 1), (px + 1, py + 1)]"
    by (simp add: neighbors_def)
  then have "calculateLandValue_f64 g px py = landValue_spec g px py"
    by (simp only: calculateLandValue_f64_def landValue_spec_def eightNeighbors_spec_def
          foldl_landValueStep_f64 Let_def)
  moreover have "1/2 \<le> calculateLandValue_f64 g px py \<and> calculateLandValue_f64 g px py \<le> 5/2"
    by (simp add: calculateLandValue_f64_def Let_def)
  ultimately show ?thesis by simp
qed

text \<open>
  On the generated grid the land tile (7, 10) has the three water tiles (6, 9), (6, 10),
  (6, 11) among its neighbours: the program returns 1 + 0.1 + 0.1 + 0.1, which in binary64
  is 1.3000000000000003, the value 5854679515581646 / 2 ^ 52; exact arithmetic gives
  13/10. The corner (0, 0) has three neighbours on the grid, all water, and the edge tile
  (0, 5) five. The centre (10, 10) has no water around it: 1. On the grid with buildings
  the value at (10, 10) is 1.4500000000000002. With five Parks of level 3 around the edge
  tile (0, 10) the sum is above 2.5 and is clamped to 2.5; with five Industrial tiles
  around it the sum is below 0.5 and is clamped to 0.5.
\<close>

theorem calculateLandValue_spec_witness:
  "resourceType (islandGrid ! 9 ! 6) = Water \<and> resourceType (islandGrid ! 10 ! 6) = Water
   \<and> resourceType (islandGrid ! 11 ! 6) = Water \<and> resourceType (islandGrid ! 10 ! 8) = NoneR
   \<and> binary64 (1/10) = 3602879701896397 / 36028797018963968
   \<and> calculateLandValue_f64 islandGrid 7 10 = 2927339757790823 / 2251799813685248
   \<and> landValue_spec islandGrid 7 10 = 2927339757790823 / 2251799813685248
   \<and> calculateLandValue islandGrid 7 10 = 13/10
   \<and> calculateLandValue_f64 islandGrid 0 0 = 2927339757790823 / 2251799813685248
   \<and> calculateLandValue_f64 islandGrid 0 5 = 3377699720527873 / 2251799813685248
   \<and> calculateLandValue_f64 islandGrid 10 10 = 1
   \<and> calculateLandValue_f64 valueGrid 10 10 = 1632554864921805 / 1125899906842624
   \<and> landValue_spec valueGrid 10 10 = 1632554864921805 / 1125899906842624
   \<and> calculateLandValue_f64 parkField 0 10 = 5/2
   \<and> landValue_spec parkField 0 10 = 5/2
   \<and> calculateLandValue_f64 factoryField 0 10 = 1/2
   \<and> landValue_spec factoryField 0 10 = 1/2"
proof -
  have tiles: "resourceType (islandGrid ! 9 ! 6) = Water
      \<and> resourceType (islandGrid ! 10 ! 6) = Water
      \<and> resourceType (islandGrid ! 11 ! 6) = Water \<and> resourceType (islandGrid ! 10 ! 8) = NoneR
      \<and> binary64 (1/10) = 3602879701896397 / 36028797018963968"
    by code_simp
  have shore: "calculateLandValue_f64 islandGrid 7 10 = 2927339757790823 / 2251799813685248"
    by code_simp
  have exact: "calculateLandValue islandGrid 7 10 = 13/10"
    by code_simp
  have corner: "calculateLandValue_f64 islandGrid 0 0 = 2927339757790823 / 2251799813685248"
    by code_simp
  have edge: "calculateLandValue_f64 islandGrid 0 5 = 3377699720527873 / 2251799813685248"
    by code_simp
  have centre: "calculateLandValue_f64 islandGrid 10 10 = 1"
    by code_simp
  have town: "calculateLandValue_f64 valueGrid 10 10 = 1632554864921805 / 1125899906842624"
    by code_simp
  have parks: "calculateLandValue_f64 parkField 0 10 = 5/2"
    by code_simp
  have factories: "calculateLandValue_f64 factoryField 0 10 = 1/2"
    by code_simp
  show ?thesis
    using calculateLandValue_spec [of islandGrid 7 10] calculateLandValue_spec [of valueGrid 10 10]
      calculateLandValue_spec [of parkField 0 10] calculateLandValue_spec [of factoryField 0 10]
      tiles shore exact corner edge centre town parks factories
    by simp
qed

subsection \<open>Exact and binary64 land values\<close>

text \<open>
  Rounding to binary64 changes a number by at most its \<open>2 ^ 53\<close>-th part. With tile levels
  between 1 and 3 the sum of \<^verbatim>\<open>calculateLandValue\<close> takes at most 48 additions of values
  below 8, so the value of the program and the exact value are never further apart than
  \<open>1 / 2 ^ 44\<close>.
\<close>

lemma roundHalfEven_err: "\<bar>of_int (roundHalfEven r) - r\<bar> \<le> 1/2"
proof -
  have "of_int \<lfloor>r\<rfloor> \<le> r" "r < of_int \<lfloor>r\<rfloor> + 1"
    by linarith+
  then show ?thesis
    unfolding roundHalfEven_def Let_def by (auto simp add: abs_le_iff)
qed

lemma bitlen_powi:
  assumes "0 < n"
  shows "(2::rat) powi (bitlen n - 1) \<le> of_int n \<and> of_int n < (2::rat) powi bitlen n"
proof -
  have b: "2 ^ nat (bitlen n - 1) \<le> n \<and> n < 2 ^ nat (bitlen n)"
    using assms by (rule bitlen_bounds)
  have "bitlen n = bitlen (n div 2) + 1"
    using assms by (subst compute_bitlen) simp
  then have pos: "0 < bitlen n"
    using bitlen_nonneg [of "n div 2"] by simp
  have "(of_int (2 ^ nat (bitlen n - 1)) :: rat) \<le> of_int n"
    using b by (simp only: of_int_le_iff)
  moreover have "(of_int n :: rat) < of_int (2 ^ nat (bitlen n))"
    using b by (simp only: of_int_less_iff)
  ultimately show ?thesis
    using pos by (simp add: power_int_def)
qed

lemma ilog2_bounds:
  assumes "0 < r"
  shows "2 powi ilog2 r \<le> r \<and> r < 2 powi (ilog2 r + 1)"
proof -
  obtain n d where q: "quotient_of r = (n, d)"
    by (cases "quotient_of r")
  have d: "0 < d" using q by (rule quotient_of_denom_pos)
  have r: "r = of_int n / of_int d" using q by (rule quotient_of_div)
  have n: "0 < n"
    using assms d unfolding r by (simp add: zero_less_divide_iff)
  note bn = bitlen_powi [OF n] and bd = bitlen_powi [OF d]
  have dpos: "(0::rat) < of_int d" using d by simp
  have up: "r < 2 powi (bitlen n - bitlen d + 1)"
  proof -
    have "r < 2 powi bitlen n / of_int d"
      unfolding r using bn dpos by (simp add: divide_strict_right_mono)
    also have "\<dots> \<le> 2 powi bitlen n / 2 powi (bitlen d - 1)"
      using bd d by (intro divide_left_mono mult_pos_pos) (simp_all add: dpos)
    also have "\<dots> = 2 powi (bitlen n - bitlen d + 1)"
      by (simp add: power_int_diff power_int_add)
    finally show ?thesis .
  qed
  have low: "2 powi (bitlen n - bitlen d - 1) \<le> r"
  proof -
    have "(2::rat) powi (bitlen n - bitlen d - 1) = 2 powi (bitlen n - 1) / 2 powi bitlen d"
      by (simp add: power_int_diff)
    also have "\<dots> \<le> of_int n / 2 powi bitlen d"
      using bn by (simp add: divide_right_mono)
    also have "\<dots> \<le> of_int n / of_int d"
      using bd n dpos by (intro divide_left_mono mult_pos_pos) simp_all
    finally show ?thesis unfolding r .
  qed
  show ?thesis
  proof (cases "2 powi (bitlen n - bitlen d) \<le> r")
    case True
    then show ?thesis
      using up by (simp add: ilog2_def q Let_def)
  next
    case False
    then have "ilog2 r = bitlen n - bitlen d - 1"
      by (simp add: ilog2_def q Let_def)
    then show ?thesis
      using False low by simp
  qed
qed

lemma binary64_err: "\<bar>binary64 r - r\<bar> \<le> \<bar>r\<bar> / 2 ^ 53"
proof (cases "r = 0")
  case True
  then show ?thesis by (simp add: binary64_def)
next
  case False
  define e where "e = ilog2 \<bar>r\<bar>"
  define q :: rat where "q = 2 powi (e - 52)"
  have qpos: "0 < q" by (simp add: q_def)
  have e: "2 powi e \<le> \<bar>r\<bar>"
    using ilog2_bounds [of "\<bar>r\<bar>"] False by (simp add: e_def)
  have "binary64 r - r = q * (of_int (roundHalfEven (r / q)) - r / q)"
    using False qpos by (simp add: binary64_def e_def q_def Let_def algebra_simps)
  then have "\<bar>binary64 r - r\<bar> = q * \<bar>of_int (roundHalfEven (r / q)) - r / q\<bar>"
    using qpos by (simp add: abs_mult)
  also have "\<dots> \<le> q * (1/2)"
    using qpos roundHalfEven_err [of "r / q"] by (intro mult_left_mono) simp_all
  also have "\<dots> = 2 powi e / 2 ^ 53"
    by (simp add: q_def power_int_diff)
  also have "\<dots> \<le> \<bar>r\<bar> / 2 ^ 53"
    using e by (simp add: divide_right_mono)
  finally show ?thesis .
qed

lemma fadd_close:
  assumes "\<bar>v - v'\<bar> \<le> D" "D \<le> 1 / 2 ^ 10" "\<bar>c - c'\<bar> \<le> 1 / 2 ^ 55" "\<bar>v' + c'\<bar> \<le> 7"
  shows "\<bar>(if P then fadd v c else v) - (if P then v' + c' else v')\<bar> \<le> D + 1 / 2 ^ 50"
proof (cases P)
  case False
  then show ?thesis using assms(1) by simp
next
  case True
  have "\<bar>v + c\<bar> \<le> \<bar>v' + c'\<bar> + \<bar>v - v'\<bar> + \<bar>c - c'\<bar>"
    by linarith
  then have s: "\<bar>v + c\<bar> \<le> 7 + 1 / 2 ^ 10 + 1 / 2 ^ 55"
    using assms by linarith
  have "\<bar>fadd v c - (v + c)\<bar> \<le> \<bar>v + c\<bar> / 2 ^ 53"
    unfolding fadd_def by (rule binary64_err)
  also have "\<dots> \<le> (7 + 1 / 2 ^ 10 + 1 / 2 ^ 55) / 2 ^ 53"
    using s by (simp add: divide_right_mono del: power_numeral)
  finally have r: "\<bar>fadd v c - (v + c)\<bar> \<le> (7 + 1 / 2 ^ 10 + 1 / 2 ^ 55) / 2 ^ 53" .
  have "\<bar>fadd v c - (v' + c')\<bar> \<le> \<bar>fadd v c - (v + c)\<bar> + \<bar>v - v'\<bar> + \<bar>c - c'\<bar>"
    by linarith
  then have "\<bar>fadd v c - (v' + c')\<bar> \<le> (7 + 1 / 2 ^ 10 + 1 / 2 ^ 55) / 2 ^ 53 + D + 1 / 2 ^ 55"
    using r assms(1,3) by linarith
  moreover have "(7 + 1 / 2 ^ 10 + 1 / 2 ^ 55) / 2 ^ 53 + 1 / 2 ^ 55 \<le> (1 / 2 ^ 50 :: rat)"
    by simp
  ultimately show ?thesis
    using True by simp
qed


lemma binary64_literals:
  "\<bar>binary64 (1/10) - 1/10\<bar> \<le> 1 / 2 ^ 55"
  "\<bar>binary64 (1/20) - 1/20\<bar> \<le> 1 / 2 ^ 55"
  "\<bar>binary64 (1/5) - 1/5\<bar> \<le> 1 / 2 ^ 55"
  "\<bar>- binary64 (3/20) - (- (3/20))\<bar> \<le> 1 / 2 ^ 55"
  "\<bar>fmul (binary64 (1/10)) (fsub 2 1) - 1/10\<bar> \<le> 1 / 2 ^ 55"
  "\<bar>fmul (binary64 (1/10)) (fsub 3 1) - 1/5\<bar> \<le> 1 / 2 ^ 55"
  by code_simp+

lemma addNeighbor_close:
  assumes lv: "1 \<le> level t" "level t \<le> 3"
    and d: "\<bar>v - v'\<bar> \<le> D" "D \<le> 1 / 2 ^ 11"
    and w: "- 2 \<le> v'" "v' \<le> 6"
  shows "\<bar>addNeighbor_f64 t v - addNeighbor t v'\<bar> \<le> D + 6 / 2 ^ 50
    \<and> v' - 3/20 \<le> addNeighbor t v' \<and> addNeighbor t v' \<le> v' + 3/5"
proof -
  define L where "L = fmul (binary64 (1/10)) (fsub (of_int (level t)) 1)"
  define L' :: rat where "L' = (1/10) * of_int (level t - 1)"
  define v1 where "v1 = (if resourceType t = Water then fadd v (binary64 (1/10)) else v)"
  define v2 where "v2 = (if resourceType t = Forest then fadd v1 (binary64 (1/20)) else v1)"
  define v3 where "v3 = (if buildingType t = Park then fadd v2 (binary64 (1/5)) else v2)"
  define v4 where "v4 = (if buildingType t = Industrial then fadd v3 (- binary64 (3/20)) else v3)"
  define v5 where "v5 = (if buildingType t = Defense then fadd v4 (binary64 (1/20)) else v4)"
  define v6 where "v6 = (if level t > 1 then fadd v5 L else v5)"
  define w1 where "w1 = (if resourceType t = Water then v' + 1/10 else v')"
  define w2 where "w2 = (if resourceType t = Forest then w1 + 1/20 else w1)"
  define w3 where "w3 = (if buildingType t = Park then w2 + 1/5 else w2)"
  define w4 where "w4 = (if buildingType t = Industrial then w3 + (- (3/20)) else w3)"
  define w5 where "w5 = (if buildingType t = Defense then w4 + 1/20 else w4)"
  define w6 where "w6 = (if level t > 1 then w5 + L' else w5)"
  have f: "addNeighbor_f64 t v = v6"
    by (simp add: addNeighbor_f64_def Let_def v6_def v5_def v4_def v3_def v2_def v1_def L_def
          fsub_def fadd_def)
  have e: "addNeighbor t v' = w6"
    by (simp add: addNeighbor_def Let_def w6_def w5_def w4_def w3_def w2_def w1_def L'_def)
  have eta: "(1 / 2 ^ 11 :: rat) + 5 / 2 ^ 50 \<le> 1 / 2 ^ 10"
    by simp
  have b1: "v' \<le> w1" "w1 \<le> v' + 1/10"
    by (simp_all add: w1_def)
  have b2: "w1 \<le> w2" "w2 \<le> w1 + 1/20"
    by (simp_all add: w2_def)
  have b3: "w2 \<le> w3" "w3 \<le> w2 + 1/5"
    by (simp_all add: w3_def)
  have b4: "w3 - 3/20 \<le> w4" "w4 \<le> w3"
    by (simp_all add: w4_def)
  have b5: "w4 \<le> w5" "w5 \<le> w4 + 1/20"
    by (simp_all add: w5_def)
  have lcases: "level t = 1 \<or> level t = 2 \<or> level t = 3"
    using lv by arith
  have Lerr: "level t > 1 \<Longrightarrow> \<bar>L - L'\<bar> \<le> 1 / 2 ^ 55"
    using lcases binary64_literals(5,6) by (auto simp add: L_def L'_def)
  have Lb: "0 \<le> L'" "L' \<le> 1/5"
    using lcases by (auto simp add: L'_def)
  have b6: "w5 \<le> w6" "w6 \<le> w5 + 1/5"
    using Lb by (simp_all add: w6_def)
  have e1: "\<bar>v1 - w1\<bar> \<le> D + 1 / 2 ^ 50"
    unfolding v1_def w1_def
    using d w by (intro fadd_close binary64_literals; (simp; linarith))
  have e2: "\<bar>v2 - w2\<bar> \<le> D + 1 / 2 ^ 50 + 1 / 2 ^ 50"
    unfolding v2_def w2_def
    using e1 d eta w b1 by (intro fadd_close binary64_literals; (simp; linarith))
  have e3: "\<bar>v3 - w3\<bar> \<le> D + 1 / 2 ^ 50 + 1 / 2 ^ 50 + 1 / 2 ^ 50"
    unfolding v3_def w3_def
    using e2 d eta w b1 b2 by (intro fadd_close binary64_literals; (simp; linarith))
  have e4: "\<bar>v4 - w4\<bar> \<le> D + 1 / 2 ^ 50 + 1 / 2 ^ 50 + 1 / 2 ^ 50 + 1 / 2 ^ 50"
    unfolding v4_def w4_def
    using e3 d eta w b1 b2 b3 by (intro fadd_close binary64_literals; (simp; linarith))
  have e5: "\<bar>v5 - w5\<bar> \<le> D + 1 / 2 ^ 50 + 1 / 2 ^ 50 + 1 / 2 ^ 50 + 1 / 2 ^ 50 + 1 / 2 ^ 50"
    unfolding v5_def w5_def
    using e4 d eta w b1 b2 b3 b4 by (intro fadd_close binary64_literals; (simp; linarith))
  have e6: "\<bar>v6 - w6\<bar> \<le> D + 1 / 2 ^ 50 + 1 / 2 ^ 50 + 1 / 2 ^ 50 + 1 / 2 ^ 50 + 1 / 2 ^ 50
      + 1 / 2 ^ 50"
  proof (cases "level t > 1")
    case False
    then show ?thesis
      using e5 by (simp add: v6_def w6_def)
  next
    case True
    have "\<bar>(if level t > 1 then fadd v5 L else v5) - (if level t > 1 then w5 + L' else w5)\<bar>
        \<le> (D + 1 / 2 ^ 50 + 1 / 2 ^ 50 + 1 / 2 ^ 50 + 1 / 2 ^ 50 + 1 / 2 ^ 50) + 1 / 2 ^ 50"
      using e5 d eta w b1 b2 b3 b4 b5 Lb Lerr [OF True] by (intro fadd_close; (simp; linarith))
    then show ?thesis
      by (simp only: v6_def w6_def)
  qed
  have "\<bar>v6 - w6\<bar> \<le> D + 6 / 2 ^ 50"
    using e6 by simp
  moreover have "v' - 3/20 \<le> w6" "w6 \<le> v' + 3/5"
    using b1 b2 b3 b4 b5 b6 by (simp; linarith)+
  ultimately show ?thesis
    unfolding f e by simp
qed


lemma foldl_landValueStep_close:
  assumes lv: "\<And>a b. inBounds a b \<Longrightarrow> 1 \<le> level (tileAt g a b) \<and> level (tileAt g a b) \<le> 3"
  shows "length ds + k \<le> 8 \<Longrightarrow> \<bar>v - v'\<bar> \<le> 6 * of_nat k / 2 ^ 50 \<Longrightarrow>
     1 - (3/20) * of_nat k \<le> v' \<Longrightarrow> v' \<le> 1 + (3/5) * of_nat k \<Longrightarrow>
     \<bar>foldl (landValueStep_f64 g px py) v ds - foldl (landValueStep g px py) v' ds\<bar>
       \<le> 6 * of_nat (k + length ds) / 2 ^ 50"
proof (induction ds arbitrary: v v' k)
  case Nil
  then show ?case by simp
next
  case (Cons d ds)
  obtain dx dy where d: "d = (dx, dy)" by (cases d)
  have k: "k \<le> 7" "length ds + k \<le> 8" "length ds + Suc k \<le> 8"
    using Cons.prems(1) by simp_all
  have kr: "(of_nat k :: rat) \<le> 7"
    using k(1) by simp
  show ?case
  proof (cases "inBounds (px + dx) (py + dy)")
    case False
    then have same: "landValueStep_f64 g px py v d = v" "landValueStep g px py v' d = v'"
      by (auto simp add: d landValueStep_f64_def landValueStep_def Let_def inBounds_def)
    have "\<bar>foldl (landValueStep_f64 g px py) v ds - foldl (landValueStep g px py) v' ds\<bar>
       \<le> 6 * of_nat (k + length ds) / 2 ^ 50"
      using k(2) Cons.prems(2,3,4) by (rule Cons.IH)
    also have "\<dots> \<le> 6 * of_nat (k + length (d # ds)) / 2 ^ 50"
      by simp
    finally show ?thesis
      by (simp only: foldl_Cons same)
  next
    case True
    define t where "t = tileAt g (px + dx) (py + dy)"
    have step: "landValueStep_f64 g px py v d = addNeighbor_f64 t v"
      "landValueStep g px py v' d = addNeighbor t v'"
      using True by (simp_all add: d landValueStep_f64_def landValueStep_def Let_def inBounds_def
          t_def tileAt_def)
    have D: "6 * of_nat k / 2 ^ 50 \<le> (1 / 2 ^ 11 :: rat)"
      using kr by simp
    have w: "- 2 \<le> v'" "v' \<le> 6"
      using Cons.prems(3,4) kr by linarith+
    have c: "\<bar>addNeighbor_f64 t v - addNeighbor t v'\<bar> \<le> 6 * of_nat k / 2 ^ 50 + 6 / 2 ^ 50
      \<and> v' - 3/20 \<le> addNeighbor t v' \<and> addNeighbor t v' \<le> v' + 3/5"
      using lv [OF True] Cons.prems(2) D w unfolding t_def [symmetric]
      by (intro addNeighbor_close) simp_all
    have c1: "\<bar>addNeighbor_f64 t v - addNeighbor t v'\<bar> \<le> 6 * of_nat (Suc k) / 2 ^ 50"
      using c by (simp add: field_simps)
    have c2: "1 - (3/20) * of_nat (Suc k) \<le> addNeighbor t v'"
      using c Cons.prems(3) by (simp add: field_simps)
    have c3: "addNeighbor t v' \<le> 1 + (3/5) * of_nat (Suc k)"
      using c Cons.prems(4) by (simp add: field_simps)
    have "\<bar>foldl (landValueStep_f64 g px py) (addNeighbor_f64 t v) ds
          - foldl (landValueStep g px py) (addNeighbor t v') ds\<bar>
       \<le> 6 * of_nat (Suc k + length ds) / 2 ^ 50"
      using k(3) c1 c2 c3 by (rule Cons.IH)
    then show ?thesis
      by (simp only: foldl_Cons step) simp
  qed
qed

lemma clamp_close:
  fixes a b e l h :: rat
  assumes "\<bar>a - b\<bar> \<le> e"
  shows "\<bar>max l (min h a) - max l (min h b)\<bar> \<le> e"
  using assms unfolding max_def min_def by (simp split: if_splits) linarith

lemma calculateLandValue_f64_close:
  assumes "\<And>a b. inBounds a b \<Longrightarrow> 1 \<le> level (tileAt g a b) \<and> level (tileAt g a b) \<le> 3"
  shows "\<bar>calculateLandValue_f64 g px py - calculateLandValue g px py\<bar> \<le> 1 / 2 ^ 44"
proof -
  have "\<bar>foldl (landValueStep_f64 g px py) 1 neighbors
        - foldl (landValueStep g px py) 1 neighbors\<bar>
       \<le> 6 * of_nat (0 + length neighbors) / 2 ^ 50"
    using assms by (intro foldl_landValueStep_close) (simp_all add: neighbors_def)
  also have "\<dots> \<le> 1 / 2 ^ 44"
    by (simp add: neighbors_def)
  finally have "\<bar>foldl (landValueStep_f64 g px py) 1 neighbors
        - foldl (landValueStep g px py) 1 neighbors\<bar> \<le> 1 / 2 ^ 44" .
  then show ?thesis
    unfolding calculateLandValue_f64_def calculateLandValue_def Let_def
    by (rule clamp_close)
qed

section \<open>Facts about the economy tick\<close>

lemma sweepTile_count:
  "b \<noteq> NoneB \<Longrightarrow> countOf (buildingCounts (sweepTile d t)) b =
     countOf (buildingCounts d) b + (if buildingType t = b then 1 else 0)"
  by (simp add: sweepTile_def Let_def countOf_def)

lemma foldl_sweepTile_count:
  "b \<noteq> NoneB \<Longrightarrow> countOf (buildingCounts (foldl sweepTile d ts)) b =
     countOf (buildingCounts d) b + int (length (filter (\<lambda>t. buildingType t = b) ts))"
  by (induction ts arbitrary: d) (simp_all add: sweepTile_count)

lemma sweep_count:
  "b \<noteq> NoneB \<Longrightarrow> countOf (buildingCounts (sweep g)) b =
     int (length (filter (\<lambda>t. buildingType t = b) (concat g)))"
  by (simp add: sweep_def foldl_sweepTile_count) (simp add: emptyDaily_def countOf_def)

lemma economyTick_stats:
  "gameStarted gm \<Longrightarrow>
     stats (economyTick r1 r2 gm) = fst (economyUpdate (sweep (grid gm)) r1 r2 (stats gm))"
  by (cases "economyUpdate (sweep (grid gm)) r1 r2 (stats gm)") (simp add: economyTick_def)

lemma economyUpdate_era:
  "eraRank (era prev) \<le> eraRank (era (fst (economyUpdate d r1 r2 prev)))
   \<and> eraRank (era (fst (economyUpdate d r1 r2 prev))) \<le> Suc (eraRank (era prev))
   \<and> (era (fst (economyUpdate d r1 r2 prev)) \<noteq> era prev \<longrightarrow>
        thr_pop (era (fst (economyUpdate d r1 r2 prev)))
          \<le> population (fst (economyUpdate d r1 r2 prev))
      \<and> thr_money (era (fst (economyUpdate d r1 r2 prev))) \<le> money prev)"
  by (cases "era prev") (simp_all add: economyUpdate_def Let_def)

text \<open>
  Claim C4. Across an economy tick the era never goes back and advances by at most one
  step in the order Primitive, Industrial, Modern, Future; when it advances, the new
  population reaches the population threshold of the new era and the money held before
  the tick reaches its money threshold.
\<close>

theorem era_one_step:
  "eraRank (era (stats gm)) \<le> eraRank (era (stats (economyTick r1 r2 gm)))
   \<and> eraRank (era (stats (economyTick r1 r2 gm))) \<le> Suc (eraRank (era (stats gm)))
   \<and> (era (stats (economyTick r1 r2 gm)) \<noteq> era (stats gm) \<longrightarrow>
        thr_pop (era (stats (economyTick r1 r2 gm)))
          \<le> population (stats (economyTick r1 r2 gm))
      \<and> thr_money (era (stats (economyTick r1 r2 gm))) \<le> money (stats gm))"
proof (cases "gameStarted gm")
  case False
  then show ?thesis by (simp add: economyTick_def)
next
  case True
  then show ?thesis
    using economyUpdate_era [of "stats gm" "sweep (grid gm)" r1 r2]
    by (simp add: economyTick_stats)
qed

text \<open>
  On the town, whose ledger exceeds the thresholds of all three later eras at once, one
  tick leads from Primitive to Industrial and no further.
\<close>

theorem era_one_step_witness:
  "era (stats townGame) = Primitive
   \<and> thr_pop Future \<le> population (stats (economyTick 0 0 townGame))
   \<and> thr_money Future \<le> money (stats townGame)
   \<and> era (stats (economyTick 0 0 townGame)) = IndustrialE
   \<and> era (stats (economyTick 0 0 townGame)) \<noteq> era (stats townGame)
   \<and> thr_pop IndustrialE \<le> population (stats (economyTick 0 0 townGame))
   \<and> thr_money IndustrialE \<le> money (stats townGame)"
  using era_one_step [of townGame 0 0]
  by code_simp

lemma economyUpdate_food_pop:
  "food (fst (economyUpdate d r1 r2 prev)) =
     max 0 (food prev + dailyFood d - \<lceil>of_int (population prev) * (1/5 :: rat)\<rceil>)
   \<and> population (fst (economyUpdate d r1 r2 prev)) =
     max 0 (min (150 * countOf (buildingCounts d) Residential)
       (population prev +
         (if food prev + dailyFood d - \<lceil>of_int (population prev) * (1/5 :: rat)\<rceil> < 0
          then - 5 else dailyPopGrowth d)))"
  by (simp add: economyUpdate_def Let_def max_def min_def)

text \<open>
  Claim C5. On an economy tick the food consumed is the ceiling of a fifth of the
  population. The new food is the old food plus the harvest minus the consumption, or zero
  when that is negative; in that case (starvation) the population loses 5 instead of
  growing. The population is then cut to 150 times the number of Residential tiles and
  raised to zero when negative, so that it lies between zero and that cap.
\<close>

theorem food_and_population:
  "gameStarted gm \<Longrightarrow>
    (let prev = stats gm;
         new = stats (economyTick r1 r2 gm);
         d = sweep (grid gm);
         foodConsumption = \<lceil>of_int (population prev) * (1/5 :: rat)\<rceil>;
         starving = (food prev + dailyFood d - foodConsumption < 0);
         resCount = int (length (filter (\<lambda>t. buildingType t = Residential) (concat (grid gm))))
     in food new = max 0 (food prev + dailyFood d - foodConsumption)
      \<and> population new =
          max 0 (min (150 * resCount)
                     (population prev + (if starving then - 5 else dailyPopGrowth d)))
      \<and> 0 \<le> food new \<and> 0 \<le> population new \<and> population new \<le> 150 * resCount)"
proof -
  assume started: "gameStarted gm"
  have cnt: "countOf (buildingCounts (sweep (grid gm))) Residential =
      int (length (filter (\<lambda>t. buildingType t = Residential) (concat (grid gm))))"
    by (simp add: sweep_count)
  show ?thesis
    unfolding Let_def economyTick_stats [OF started]
    using economyUpdate_food_pop [of "sweep (grid gm)" r1 r2 "stats gm"]
    by (simp add: cnt)
qed

text \<open>
  The town with food for everybody grows by the houses' 100 inhabitants; the town with
  too little food ends at no food and loses 5 inhabitants.
\<close>

theorem food_and_population_witness:
  "gameStarted townGame \<and> gameStarted hungryGame
   \<and> food (stats (economyTick 0 0 townGame)) = 600
   \<and> population (stats (economyTick 0 0 townGame)) = 2100
   \<and> food (stats (economyTick 0 0 hungryGame)) = 0
   \<and> population (stats (economyTick 0 0 hungryGame)) = 1995"
proof -
  have a: "gameStarted townGame" and b: "gameStarted hungryGame"
    by code_simp+
  show ?thesis
    using food_and_population [OF a, of 0 0] food_and_population [OF b, of 0 0]
    by code_simp
qed

section \<open>Facts about the grid and the recomputation loop\<close>

lemma wf_grid_row: "wf_grid g \<Longrightarrow> i < 20 \<Longrightarrow> length (g ! i) = 20"
  by (simp add: wf_grid_def list_all_length)

lemma wf_grid_length: "wf_grid g \<Longrightarrow> length g = 20"
  by (simp add: wf_grid_def)

lemma wf_setTile: "wf_grid g \<Longrightarrow> wf_grid (setTile g a b t)"
proof -
  assume wf: "wf_grid g"
  have "length (g[i := (g ! i)[j := t]] ! n) = 20" if "n < 20" for i j n
  proof (cases "i < length g")
    case True
    then show ?thesis
      using wf that by (simp add: nth_list_update wf_grid_def list_all_length)
  next
    case False
    then show ?thesis
      using wf that by (simp add: wf_grid_def list_all_length)
  qed
  then show ?thesis
    using wf by (simp add: wf_grid_def setTile_def list_all_length)
qed

lemma tileAt_setTile:
  "wf_grid g \<Longrightarrow> inBounds a b \<Longrightarrow> inBounds c d \<Longrightarrow>
     tileAt (setTile g a b t) c d = (if c = a \<and> d = b then t else tileAt g c d)"
  by (auto simp add: tileAt_def setTile_def inBounds_def wf_grid_def list_all_length
        nth_list_update nat_eq_iff)

lemma calculateLandValue_cong:
  assumes "\<And>a b. inBounds a b \<Longrightarrow>
      resourceType (tileAt g' a b) = resourceType (tileAt g a b)
    \<and> buildingType (tileAt g' a b) = buildingType (tileAt g a b)
    \<and> level (tileAt g' a b) = level (tileAt g a b)"
  shows "calculateLandValue g' px py = calculateLandValue g px py"
proof -
  have h: "map (\<lambda>(nx, ny). neighborBonus_spec (tileAt g' nx ny)) (filter (\<lambda>(nx, ny). inBounds nx ny) cs)
      = map (\<lambda>(nx, ny). neighborBonus_spec (tileAt g nx ny)) (filter (\<lambda>(nx, ny). inBounds nx ny) cs)" for cs
    by (rule map_cong) (auto simp add: neighborBonus_spec_def assms)
  show ?thesis
    by (simp only: calculateLandValue_def foldl_landValueStep h)
qed

lemma recalcStep_wf: "wf_grid g \<Longrightarrow> wf_grid (recalcStep px py g d)"
  by (cases d) (simp add: recalcStep_def Let_def wf_setTile)

lemma recalcStep_tile:
  "wf_grid g \<Longrightarrow> inBounds a b \<Longrightarrow>
     tileAt (recalcStep px py g (dx, dy)) a b =
       (if a = px + dx \<and> b = py + dy
        then (tileAt g a b)\<lparr>landValue := calculateLandValue g a b\<rparr> else tileAt g a b)"
  by (auto simp add: recalcStep_def Let_def tileAt_setTile)

lemma recalcStep_calc:
  assumes "wf_grid g"
  shows "calculateLandValue (recalcStep px py g d) a b = calculateLandValue g a b"
proof -
  obtain dx dy where d: "d = (dx, dy)" by (cases d)
  show ?thesis
    unfolding d
    by (rule calculateLandValue_cong) (simp add: recalcStep_tile assms)
qed

lemma recalc_wf: "wf_grid g \<Longrightarrow> wf_grid (recalcLandValues rng px py g)"
  unfolding recalcLandValues_def
  by (induction rng arbitrary: g) (simp_all add: recalcStep_wf)

lemma recalc_tile:
  "wf_grid g \<Longrightarrow> inBounds a b \<Longrightarrow>
     tileAt (recalcLandValues rng px py g) a b =
       (if (a - px, b - py) \<in> set rng
        then (tileAt g a b)\<lparr>landValue := calculateLandValue g a b\<rparr> else tileAt g a b)"
  unfolding recalcLandValues_def
proof (induction rng arbitrary: g)
  case Nil
  then show ?case by simp
next
  case (Cons d rng)
  obtain dx dy where d: "d = (dx, dy)" by (cases d)
  have wf1: "wf_grid (recalcStep px py g d)"
    using Cons.prems(1) by (rule recalcStep_wf)
  have eq: "(a - px, b - py) = (dx, dy) \<longleftrightarrow> a = px + dx \<and> b = py + dy"
    by auto
  show ?case
    using Cons.prems
    by (simp add: Cons.IH [OF wf1 Cons.prems(2)] recalcStep_calc)
       (auto simp add: d recalcStep_tile)
qed

lemma recalc_calc:
  "wf_grid g \<Longrightarrow> calculateLandValue (recalcLandValues rng px py g) a b = calculateLandValue g a b"
  by (rule calculateLandValue_cong) (simp add: recalc_tile)

section \<open>Facts about the transactions\<close>

lemma notify_fields [simp]:
  "grid (notify item gm) = grid gm" "stats (notify item gm) = stats gm"
  "boats (notify item gm) = boats gm" "enemies (notify item gm) = enemies gm"
  "gameStarted (notify item gm) = gameStarted gm"
  by (simp_all add: notify_def)

lemma debit_nonneg:
  "affordable s cM cW cS \<Longrightarrow>
     0 \<le> money (debit cM cW cS s) \<and> 0 \<le> wood (debit cM cW cS s) \<and> 0 \<le> stone (debit cM cW cS s)"
  by (simp add: affordable_def debit_def)

lemma upgradeBranch_txn:
  assumes "buildingType (tileAt (grid gm) px py) = tool"
    and "clickCost tool (tileAt (grid gm) px py) = (cM, cW, cS)"
    and "gm' = upgradeBranch tool px py gm"
  shows "(\<not> affordable (stats gm) cM cW cS \<longrightarrow>
          grid gm' = grid gm \<and> stats gm' = stats gm \<and> boats gm' = boats gm
        \<and> enemies gm' = enemies gm)
    \<and> (grid gm' \<noteq> grid gm \<or> stats gm' \<noteq> stats gm \<longrightarrow>
          affordable (stats gm) cM cW cS \<and> stats gm' = debit cM cW cS (stats gm)
        \<and> 0 \<le> money (stats gm') \<and> 0 \<le> wood (stats gm') \<and> 0 \<le> stone (stats gm'))"
proof (cases "level (tileAt (grid gm) px py) < 3 \<and> affordable (stats gm) cM cW cS")
  case True
  then have "stats gm' = debit cM cW cS (stats gm)"
    using assms by (simp add: upgradeBranch_def clickCost_def Let_def)
  then show ?thesis
    using True debit_nonneg [of "stats gm" cM cW cS] by simp
next
  case False
  then have "grid gm' = grid gm \<and> stats gm' = stats gm \<and> boats gm' = boats gm
        \<and> enemies gm' = enemies gm"
    using assms by (auto simp add: upgradeBranch_def clickCost_def Let_def)
  then show ?thesis by simp
qed

lemma buildBranch_shape:
  "buildBranch tool now px py gm = gm
   \<or> buildBranch tool now px py gm = notify (OnlyPortsOrBridgesOnWater, negative) gm
   \<or> buildBranch tool now px py gm = notify (PortsMustBeOnWater, negative) gm
   \<or> buildBranch tool now px py gm
        = notify (InsufficientResources (name (BUILDINGS tool)), negative) gm
   \<or> (affordable (stats gm) (costMoney (BUILDINGS tool)) (costWood (BUILDINGS tool))
          (costStone (BUILDINGS tool))
      \<and> stats (buildBranch tool now px py gm)
          = debit (costMoney (BUILDINGS tool)) (costWood (BUILDINGS tool))
              (costStone (BUILDINGS tool)) (stats gm))"
  by (simp add: buildBranch_def Let_def)

lemma buildBranch_txn:
  assumes "buildingType (tileAt (grid gm) px py) \<noteq> tool"
    and "clickCost tool (tileAt (grid gm) px py) = (cM, cW, cS)"
    and "gm' = buildBranch tool now px py gm"
  shows "(\<not> affordable (stats gm) cM cW cS \<longrightarrow>
          grid gm' = grid gm \<and> stats gm' = stats gm \<and> boats gm' = boats gm
        \<and> enemies gm' = enemies gm)
    \<and> (grid gm' \<noteq> grid gm \<or> stats gm' \<noteq> stats gm \<longrightarrow>
          affordable (stats gm) cM cW cS \<and> stats gm' = debit cM cW cS (stats gm)
        \<and> 0 \<le> money (stats gm') \<and> 0 \<le> wood (stats gm') \<and> 0 \<le> stone (stats gm'))"
proof -
  have costs: "costMoney (BUILDINGS tool) = cM" "costWood (BUILDINGS tool) = cW"
      "costStone (BUILDINGS tool) = cS"
    using assms(1,2) by (simp_all add: clickCost_def Let_def)
  consider (same) "gm' = gm"
    | (msg) item where "gm' = notify item gm"
    | (paid) "affordable (stats gm) cM cW cS" "stats gm' = debit cM cW cS (stats gm)"
    using buildBranch_shape [of tool now px py gm] unfolding costs assms(3) by metis
  then show ?thesis
  proof cases
    case same
    then show ?thesis by simp
  next
    case msg
    then show ?thesis by simp
  next
    case paid
    then show ?thesis
      using debit_nonneg [of "stats gm" cM cW cS] by simp
  qed
qed

lemma handleTileClick_noop:
  "\<not> (gameStarted gm \<and> inBounds px py \<and> explored (tileAt (grid gm) px py)) \<Longrightarrow>
     handleTileClick tool now px py gm = gm"
  by (auto simp add: handleTileClick_def inBounds_def Let_def)

lemma handleTileClick_active:
  "gameStarted gm \<Longrightarrow> inBounds px py \<Longrightarrow> explored (tileAt (grid gm) px py) \<Longrightarrow>
     handleTileClick tool now px py gm =
       (if tool \<noteq> NoneB \<and> buildingType (tileAt (grid gm) px py) = tool
        then upgradeBranch tool px py gm
        else if tool = NoneB then demolishBranch px py gm
        else buildBranch tool now px py gm)"
  by (simp add: handleTileClick_def inBounds_def Let_def split del: if_split)

text \<open>
  Claim C1. A click with a building tool (build or upgrade) that the ledger cannot afford
  leaves grid, ledger, boats and enemies as they were; a click that changes the grid or
  the ledger was affordable, debits exactly the three costs, and leaves money, wood and
  stone non-negative.
\<close>

theorem rejected_unchanged_paid_nonneg:
  "tool \<noteq> NoneB \<Longrightarrow>
   (let t = tileAt (grid gm) px py; gm' = handleTileClick tool now px py gm
    in case clickCost tool t of (cM, cW, cS) \<Rightarrow>
      (\<not> affordable (stats gm) cM cW cS \<longrightarrow>
          grid gm' = grid gm \<and> stats gm' = stats gm \<and> boats gm' = boats gm
        \<and> enemies gm' = enemies gm)
    \<and> (grid gm' \<noteq> grid gm \<or> stats gm' \<noteq> stats gm \<longrightarrow>
          affordable (stats gm) cM cW cS \<and> stats gm' = debit cM cW cS (stats gm)
        \<and> 0 \<le> money (stats gm') \<and> 0 \<le> wood (stats gm') \<and> 0 \<le> stone (stats gm')))"
proof -
  assume tool: "tool \<noteq> NoneB"
  obtain cM cW cS where c: "clickCost tool (tileAt (grid gm) px py) = (cM, cW, cS)"
    by (cases "clickCost tool (tileAt (grid gm) px py)")
  define gm' where "gm' = handleTileClick tool now px py gm"
  have main: "(\<not> affordable (stats gm) cM cW cS \<longrightarrow>
          grid gm' = grid gm \<and> stats gm' = stats gm \<and> boats gm' = boats gm
        \<and> enemies gm' = enemies gm)
    \<and> (grid gm' \<noteq> grid gm \<or> stats gm' \<noteq> stats gm \<longrightarrow>
          affordable (stats gm) cM cW cS \<and> stats gm' = debit cM cW cS (stats gm)
        \<and> 0 \<le> money (stats gm') \<and> 0 \<le> wood (stats gm') \<and> 0 \<le> stone (stats gm'))"
  proof (cases "gameStarted gm \<and> inBounds px py \<and> explored (tileAt (grid gm) px py)")
    case False
    then have "gm' = gm"
      unfolding gm'_def by (rule handleTileClick_noop)
    then show ?thesis by simp
  next
    case True
    show ?thesis
    proof (cases "buildingType (tileAt (grid gm) px py) = tool")
      case same: True
      have "gm' = upgradeBranch tool px py gm"
        using True tool same by (simp add: gm'_def handleTileClick_active)
      then show ?thesis
        by (rule upgradeBranch_txn [OF same c])
    next
      case other: False
      have "gm' = buildBranch tool now px py gm"
        using True tool other by (simp add: gm'_def handleTileClick_active)
      then show ?thesis
        by (rule buildBranch_txn [OF other c])
    qed
  qed
  show ?thesis
    unfolding Let_def c prod.case
    using main unfolding gm'_def .
qed

text \<open>
  A Business costs 100 money, 20 wood and 5 stone: with 50 money the click changes
  nothing, with the initial ledger it is paid.
\<close>

theorem rejected_unchanged_paid_nonneg_witness:
  "Commercial \<noteq> NoneB
   \<and> clickCost Commercial (tileAt (grid poorGame) 10 10) = (100, 20, 5)
   \<and> \<not> affordable (stats poorGame) 100 20 5
   \<and> grid (handleTileClick Commercial ''1'' 10 10 poorGame) = grid poorGame
   \<and> stats (handleTileClick Commercial ''1'' 10 10 poorGame) = stats poorGame
   \<and> stats (handleTileClick Commercial ''1'' 10 10 plainGame) \<noteq> stats plainGame
   \<and> money (stats (handleTileClick Commercial ''1'' 10 10 plainGame)) = 1400
   \<and> wood (stats (handleTileClick Commercial ''1'' 10 10 plainGame)) = 80
   \<and> stone (stats (handleTileClick Commercial ''1'' 10 10 plainGame)) = 45"
proof -
  have t: "Commercial \<noteq> NoneB" by simp
  show ?thesis
    using rejected_unchanged_paid_nonneg [OF t, of poorGame 10 10 "''1''"]
          rejected_unchanged_paid_nonneg [OF t, of plainGame 10 10 "''1''"]
    by code_simp
qed

lemma buildRange_iff:
  "(a - px, b - py) \<in> set buildRange \<longleftrightarrow> \<bar>a - px\<bar> \<le> 1 \<and> \<bar>b - py\<bar> \<le> (1::int)"
proof -
  have u: "\<bar>d\<bar> \<le> 1 \<longleftrightarrow> d = - 1 \<or> d = 0 \<or> d = 1" for d :: int
    by arith
  have "(d, e) \<in> set buildRange \<longleftrightarrow> \<bar>d\<bar> \<le> 1 \<and> \<bar>e\<bar> \<le> (1::int)" for d e :: int
    unfolding buildRange_def u by auto
  then show ?thesis by simp
qed

lemma buildBranch_unfold:
  "buildBranch tool now px py gm =
    (if buildingType (tileAt (grid gm) px py) = NoneB
     then
       if resourceType (tileAt (grid gm) px py) = Water \<and> tool \<noteq> Port \<and> tool \<noteq> Road
       then notify (OnlyPortsOrBridgesOnWater, negative) gm
       else if tool = Port \<and> resourceType (tileAt (grid gm) px py) \<noteq> Water
       then notify (PortsMustBeOnWater, negative) gm
       else if affordable (stats gm) (costMoney (BUILDINGS tool)) (costWood (BUILDINGS tool))
                 (costStone (BUILDINGS tool))
       then gm\<lparr>stats := debit (costMoney (BUILDINGS tool)) (costWood (BUILDINGS tool))
                     (costStone (BUILDINGS tool)) (stats gm),
               boats := (if tool = Port
                  then boats gm @ [\<lparr>boat_id = now, boat_x = of_int px, boat_y = of_int py,
                         targetX = None, targetY = None, boat_state = idle\<rparr>]
                  else boats gm),
               grid := recalcLandValues buildRange px py
                  (setTile (grid gm) px py
                     ((tileAt (grid gm) px py)\<lparr>buildingType := tool, level := 1\<rparr>))\<rparr>
       else notify (InsufficientResources (name (BUILDINGS tool)), negative) gm
     else gm)"
  unfolding buildBranch_def Let_def ..



lemma rebuilt_grid_tile:
  assumes wf: "wf_grid g" and p: "inBounds px py" and ab: "inBounds a b"
    and g'_def: "g' = recalcLandValues buildRange px py (setTile g px py t')"
  shows "tileAt g' a b =
     (if a = px \<and> b = py then t'\<lparr>landValue := calculateLandValue g' a b\<rparr>
      else if \<bar>a - px\<bar> \<le> 1 \<and> \<bar>b - py\<bar> \<le> 1
      then (tileAt g a b)\<lparr>landValue := calculateLandValue g' a b\<rparr>
      else tileAt g a b)"
proof -
  have wf0: "wf_grid (setTile g px py t')"
    using wf by (rule wf_setTile)
  have calc: "calculateLandValue g' a b = calculateLandValue (setTile g px py t') a b"
    unfolding g'_def using wf0 by (rule recalc_calc)
  have "tileAt g' a b =
      (if \<bar>a - px\<bar> \<le> 1 \<and> \<bar>b - py\<bar> \<le> 1
       then (tileAt (setTile g px py t') a b)\<lparr>landValue := calculateLandValue g' a b\<rparr>
       else tileAt (setTile g px py t') a b)"
    unfolding calc unfolding g'_def
    by (simp only: recalc_tile [OF wf0 ab] buildRange_iff)
  then show ?thesis
    unfolding tileAt_setTile [OF wf p ab] by simp
qed






section \<open>Facts about the recomputation invariant\<close>

lemma scanCells_set: "(a, b) \<in> set scanCells \<longleftrightarrow> inBounds a b"
proof -
  have "(a, b) \<in> set scanCells \<longleftrightarrow> b \<in> {0..19} \<and> a \<in> {0..19}"
    unfolding scanCells_def by (simp add: image_iff) blast
  then show ?thesis
    by (auto simp add: inBounds_def)
qed

lemma landValuesCurrent_iff:
  "landValuesCurrent g \<longleftrightarrow>
     (\<forall>a b. inBounds a b \<longrightarrow> landValue (tileAt g a b) = calculateLandValue g a b)"
  by (auto simp add: landValuesCurrent_def list_all_iff scanCells_set)

lemma neighbors_iff:
  "(d, e) \<in> set neighbors \<longleftrightarrow> \<bar>d\<bar> \<le> 1 \<and> \<bar>e\<bar> \<le> 1 \<and> (d, e) \<noteq> (0, 0)"
proof -
  have u: "\<bar>k\<bar> \<le> 1 \<longleftrightarrow> k = - 1 \<or> k = 0 \<or> k = 1" for k :: int
    by arith
  show ?thesis
    unfolding neighbors_def u by auto
qed

lemma calculateLandValue_local:
  assumes "\<And>c d. inBounds c d \<Longrightarrow> \<bar>c - a\<bar> \<le> 1 \<Longrightarrow> \<bar>d - b\<bar> \<le> 1 \<Longrightarrow> (c, d) \<noteq> (a, b) \<Longrightarrow>
      resourceType (tileAt g' c d) = resourceType (tileAt g c d)
    \<and> buildingType (tileAt g' c d) = buildingType (tileAt g c d)
    \<and> level (tileAt g' c d) = level (tileAt g c d)"
  shows "calculateLandValue g' a b = calculateLandValue g a b"
proof -
  have h: "map (\<lambda>(nx, ny). neighborBonus_spec (tileAt g' nx ny))
             (filter (\<lambda>(nx, ny). inBounds nx ny) (map (\<lambda>(dx, dy). (a + dx, b + dy)) neighbors))
      = map (\<lambda>(nx, ny). neighborBonus_spec (tileAt g nx ny))
             (filter (\<lambda>(nx, ny). inBounds nx ny) (map (\<lambda>(dx, dy). (a + dx, b + dy)) neighbors))"
  proof (rule map_cong [OF refl])
    fix c
    assume "c \<in> set (filter (\<lambda>(nx, ny). inBounds nx ny)
                 (map (\<lambda>(dx, dy). (a + dx, b + dy)) neighbors))"
    then obtain dx dy where c: "c = (a + dx, b + dy)" and n: "(dx, dy) \<in> set neighbors"
      and i: "inBounds (a + dx) (b + dy)"
      by auto
    have "\<bar>a + dx - a\<bar> \<le> 1" "\<bar>b + dy - b\<bar> \<le> 1" "(a + dx, b + dy) \<noteq> (a, b)"
      using n by (simp_all add: neighbors_iff)
    then show "(case c of (nx, ny) \<Rightarrow> neighborBonus_spec (tileAt g' nx ny))
        = (case c of (nx, ny) \<Rightarrow> neighborBonus_spec (tileAt g nx ny))"
      using assms [OF i] by (simp add: c neighborBonus_spec_def)
  qed
  show ?thesis
    by (simp only: calculateLandValue_def foldl_landValueStep h)
qed

lemma build_keeps_landValuesCurrent:
  assumes wf: "wf_grid g" and p: "inBounds px py" and cur: "landValuesCurrent g"
    and g': "g' = recalcLandValues buildRange px py (setTile g px py t')"
  shows "landValuesCurrent g'"
  unfolding landValuesCurrent_iff
proof (intro allI impI)
  fix a b
  assume ab: "inBounds a b"
  note tile = rebuilt_grid_tile [OF wf p _ g']
  show "landValue (tileAt g' a b) = calculateLandValue g' a b"
  proof (cases "\<bar>a - px\<bar> \<le> 1 \<and> \<bar>b - py\<bar> \<le> 1")
    case True
    then show ?thesis
      by (simp add: tile [OF ab])
  next
    case False
    then have same: "tileAt g' a b = tileAt g a b"
      by (auto simp add: tile [OF ab])
    have "calculateLandValue g' a b = calculateLandValue g a b"
    proof (rule calculateLandValue_local)
      fix c d
      assume cd: "inBounds c d" and near: "\<bar>c - a\<bar> \<le> 1" "\<bar>d - b\<bar> \<le> 1"
      have "\<not> (c = px \<and> d = py)"
        using False near by auto
      then show "resourceType (tileAt g' c d) = resourceType (tileAt g c d)
        \<and> buildingType (tileAt g' c d) = buildingType (tileAt g c d)
        \<and> level (tileAt g' c d) = level (tileAt g c d)"
        by (auto simp add: tile [OF cd])
    qed
    then show ?thesis
      using cur ab by (simp add: same landValuesCurrent_iff)
  qed
qed

lemma wf_mkGrid: "wf_grid (mkGrid f)"
  by (simp add: wf_grid_def mkGrid_def list_all_iff)

lemma tileAt_mkGrid:
  "inBounds a b \<Longrightarrow> tileAt (mkGrid f) a b = (f a b)\<lparr>tile_x := a, tile_y := b\<rparr>"
proof -
  assume "inBounds a b"
  then have a: "0 \<le> a" "a \<le> 19" and b: "0 \<le> b" "b \<le> 19"
    unfolding inBounds_def by arith+
  have "[0..19] ! nat k = k" if "0 \<le> k" "k \<le> 19" for k :: int
    using that by (simp add: nth_upto)
  moreover have "nat k < length [0..19]" if "0 \<le> k" "k \<le> 19" for k :: int
    using that by simp
  ultimately show ?thesis
    using a b by (simp add: tileAt_def mkGrid_def)
qed

lemma tileAt_plainGrid:
  "inBounds a b \<Longrightarrow> tileAt plainGrid a b = plainTile\<lparr>tile_x := a, tile_y := b\<rparr>"
  by (simp add: plainGrid_def tileAt_mkGrid)

lemma wf_plainGrid: "wf_grid plainGrid"
  by (simp add: plainGrid_def wf_mkGrid)

lemma plainGrid_current: "landValuesCurrent plainGrid"
proof -
  have "map (\<lambda>(nx, ny). neighborBonus_spec (tileAt plainGrid nx ny))
          (filter (\<lambda>(nx, ny). inBounds nx ny) cs)
      = map (\<lambda>c. 0) (filter (\<lambda>(nx, ny). inBounds nx ny) cs)" for cs
    by (rule map_cong) (auto simp add: tileAt_plainGrid neighborBonus_spec_def plainTile_def)
  then have "calculateLandValue plainGrid a b = 1" for a b
    by (simp only: calculateLandValue_def foldl_landValueStep) simp
  then show ?thesis
    by (simp add: landValuesCurrent_iff tileAt_plainGrid) (simp add: plainTile_def)
qed

lemma parkGame_grid:
  "grid parkGame = recalcLandValues buildRange 5 5
     (setTile plainGrid 5 5 ((tileAt plainGrid 5 5)\<lparr>buildingType := Park, level := 1\<rparr>))"
proof -
  have p: "inBounds 5 5"
    by (simp add: inBounds_def)
  have "explored (tileAt plainGrid 5 5)" "buildingType (tileAt plainGrid 5 5) = NoneB"
    "resourceType (tileAt plainGrid 5 5) = NoneR"
    by (simp_all add: tileAt_plainGrid [OF p] plainTile_def)
  moreover have "affordable initialStats 50 10 5"
    by (simp add: affordable_def initialStats_def)
  ultimately show ?thesis
    using p
    by (simp add: parkGame_def handleTileClick_active plainGame_def buildBranch_unfold)
qed


text \<open>
  Claim C2 (every tile carries the land value of its current neighbourhood after a build,
  an upgrade and a demolition) fails on the code. After the Park is built at (5, 5) the
  invariant holds on the whole grid. Upgrading the Park leaves the neighbour (5, 6) at 1.2
  where the function now gives 1.3; demolishing the Park leaves the diagonal neighbour
  (4, 4) at 1.2 where the function now gives 1.
\<close>

theorem stale_land_values:
  "landValuesCurrent (grid parkGame)
   \<and> buildingType (tileAt (grid parkGame) 5 5) = Park
   \<and> level (tileAt (grid (handleTileClick Park ''u'' 5 5 parkGame)) 5 5) = 2
   \<and> landValue (tileAt (grid (handleTileClick Park ''u'' 5 5 parkGame)) 5 6) = 6/5
   \<and> calculateLandValue (grid (handleTileClick Park ''u'' 5 5 parkGame)) 5 6 = 13/10
   \<and> \<not> landValuesCurrent (grid (handleTileClick Park ''u'' 5 5 parkGame))
   \<and> buildingType (tileAt (grid (handleTileClick NoneB ''d'' 5 5 parkGame)) 5 5) = NoneB
   \<and> landValue (tileAt (grid (handleTileClick NoneB ''d'' 5 5 parkGame)) 4 4) = 6/5
   \<and> calculateLandValue (grid (handleTileClick NoneB ''d'' 5 5 parkGame)) 4 4 = 1
   \<and> \<not> landValuesCurrent (grid (handleTileClick NoneB ''d'' 5 5 parkGame))"
proof -
  have before: "landValuesCurrent (grid parkGame)"
    by (rule build_keeps_landValuesCurrent [OF wf_plainGrid _ plainGrid_current parkGame_grid])
       (simp add: inBounds_def)
  have up: "buildingType (tileAt (grid parkGame) 5 5) = Park
   \<and> level (tileAt (grid (handleTileClick Park ''u'' 5 5 parkGame)) 5 5) = 2
   \<and> landValue (tileAt (grid (handleTileClick Park ''u'' 5 5 parkGame)) 5 6) = 6/5
   \<and> calculateLandValue (grid (handleTileClick Park ''u'' 5 5 parkGame)) 5 6 = 13/10"
    by code_simp
  have down: "buildingType (tileAt (grid (handleTileClick NoneB ''d'' 5 5 parkGame)) 5 5) = NoneB
   \<and> landValue (tileAt (grid (handleTileClick NoneB ''d'' 5 5 parkGame)) 4 4) = 6/5
   \<and> calculateLandValue (grid (handleTileClick NoneB ''d'' 5 5 parkGame)) 4 4 = 1"
    by code_simp
  have "inBounds 5 6" "inBounds 4 4"
    by (simp_all add: inBounds_def)
  then have "\<not> landValuesCurrent (grid (handleTileClick Park ''u'' 5 5 parkGame))"
    "\<not> landValuesCurrent (grid (handleTileClick NoneB ''d'' 5 5 parkGame))"
    using up down unfolding landValuesCurrent_iff by force+
  then show ?thesis
    using before up down by simp
qed

section \<open>Facts about the explorer reveal\<close>

lemma revealStep_cases:
  "revealStep gx gy (g, s, found) (rx, ry) =
    (if inBounds (gx + rx) (gy + ry) \<and> \<not> explored (tileAt g (gx + rx) (gy + ry))
     then (setTile g (gx + rx) (gy + ry) ((tileAt g (gx + rx) (gy + ry))\<lparr>explored := True\<rparr>),
           s\<lparr>wood := wood s + (if freshAt g gx gy Forest (rx, ry) then 20 else 0),
              stone := stone s + (if freshAt g gx gy Stone (rx, ry) then 10 else 0)\<rparr>,
           found \<or> freshAt g gx gy Forest (rx, ry) \<or> freshAt g gx gy Stone (rx, ry))
     else (g, s, found))"
  by (cases "resourceType (tileAt g (gx + rx) (gy + ry))")
     (auto simp add: revealStep_def inBounds_def freshAt_def Let_def)


lemma freshAt_setTile:
  assumes "wf_grid g" and "inBounds (gx + rx) (gy + ry)" and "(rx', ry') \<noteq> (rx, ry)"
  shows "freshAt (setTile g (gx + rx) (gy + ry) t) gx gy r (rx', ry') = freshAt g gx gy r (rx', ry')"
proof (cases "inBounds (gx + rx') (gy + ry')")
  case True
  have "tileAt (setTile g (gx + rx) (gy + ry) t) (gx + rx') (gy + ry') = tileAt g (gx + rx') (gy + ry')"
    using assms(3) by (auto simp add: tileAt_setTile [OF assms(1,2) True])
  then show ?thesis
    by (simp add: freshAt_def)
next
  case False
  then show ?thesis
    by (simp add: freshAt_def)
qed

lemma foldl_revealStep:
  assumes "wf_grid g" and "distinct ds"
  shows "\<exists>g'. foldl (revealStep gx gy) (g, s, found) ds =
      (g',
       s\<lparr>wood := wood s + 20 * int (length (filter (freshAt g gx gy Forest) ds)),
          stone := stone s + 10 * int (length (filter (freshAt g gx gy Stone) ds))\<rparr>,
       found \<or> list_ex (\<lambda>d. freshAt g gx gy Forest d \<or> freshAt g gx gy Stone d) ds)
    \<and> wf_grid g'
    \<and> (\<forall>a b. inBounds a b \<longrightarrow> tileAt g' a b =
          (if (a - gx, b - gy) \<in> set ds then (tileAt g a b)\<lparr>explored := True\<rparr>
           else tileAt g a b))"
  using assms
proof (induction ds arbitrary: g s found)
  case Nil
  then show ?case by simp
next
  case (Cons d ds)
  obtain rx ry where d: "d = (rx, ry)" by (cases d)
  have dist: "distinct ds" and notin: "(rx, ry) \<notin> set ds"
    using Cons.prems(2) by (simp_all add: d)
  show ?case
  proof (cases "inBounds (gx + rx) (gy + ry) \<and> \<not> explored (tileAt g (gx + rx) (gy + ry))")
    case False
    then have step: "revealStep gx gy (g, s, found) (rx, ry) = (g, s, found)"
      by (simp only: revealStep_cases if_False simp_thms)
    have nofresh: "\<not> freshAt g gx gy r (rx, ry)" for r
      using False by (auto simp add: freshAt_def)
    have old: "(tileAt g a b)\<lparr>explored := True\<rparr> = tileAt g a b"
      if "inBounds a b" "(a - gx, b - gy) = (rx, ry)" for a b
    proof -
      have "a = gx + rx" "b = gy + ry" using that(2) by auto
      then have "explored (tileAt g a b)" using False that(1) by simp
      then show ?thesis by simp
    qed
    obtain g' where g': "foldl (revealStep gx gy) (g, s, found) ds =
      (g',
       s\<lparr>wood := wood s + 20 * int (length (filter (freshAt g gx gy Forest) ds)),
          stone := stone s + 10 * int (length (filter (freshAt g gx gy Stone) ds))\<rparr>,
       found \<or> list_ex (\<lambda>d. freshAt g gx gy Forest d \<or> freshAt g gx gy Stone d) ds)"
      and wf': "wf_grid g'"
      and tiles: "\<And>a b. inBounds a b \<Longrightarrow> tileAt g' a b =
          (if (a - gx, b - gy) \<in> set ds then (tileAt g a b)\<lparr>explored := True\<rparr>
           else tileAt g a b)"
      using Cons.IH [OF Cons.prems(1) dist, of s found] by blast
    show ?thesis
    proof (intro exI [of _ g'] conjI allI impI)
      show "foldl (revealStep gx gy) (g, s, found) (d # ds) =
        (g',
         s\<lparr>wood := wood s + 20 * int (length (filter (freshAt g gx gy Forest) (d # ds))),
            stone := stone s + 10 * int (length (filter (freshAt g gx gy Stone) (d # ds)))\<rparr>,
         found \<or> list_ex (\<lambda>d. freshAt g gx gy Forest d \<or> freshAt g gx gy Stone d) (d # ds))"
        by (simp add: d step g' nofresh)
      show "wf_grid g'" by (rule wf')
      show "tileAt g' a b =
          (if (a - gx, b - gy) \<in> set (d # ds) then (tileAt g a b)\<lparr>explored := True\<rparr>
           else tileAt g a b)" if "inBounds a b" for a b
        using old [OF that] by (auto simp add: d tiles [OF that])
    qed
  next
    case True
    define g1 where "g1 = setTile g (gx + rx) (gy + ry)
        ((tileAt g (gx + rx) (gy + ry))\<lparr>explored := True\<rparr>)"
    define s1 where "s1 = s\<lparr>wood := wood s + (if freshAt g gx gy Forest (rx, ry) then 20 else 0),
              stone := stone s + (if freshAt g gx gy Stone (rx, ry) then 10 else 0)\<rparr>"
    define f1 where "f1 \<longleftrightarrow> found \<or> freshAt g gx gy Forest (rx, ry) \<or> freshAt g gx gy Stone (rx, ry)"
    have step: "revealStep gx gy (g, s, found) (rx, ry) = (g1, s1, f1)"
      using True by (simp only: revealStep_cases if_True g1_def s1_def f1_def simp_thms)
    have wf1: "wf_grid g1"
      unfolding g1_def using Cons.prems(1) by (rule wf_setTile)
    have fresh: "freshAt g1 gx gy r d' = freshAt g gx gy r d'" if "d' \<in> set ds" for r d'
    proof -
      obtain rx' ry' where d': "d' = (rx', ry')" by (cases d')
      have "(rx', ry') \<noteq> (rx, ry)" using that notin d' by auto
      then show ?thesis
        unfolding d' g1_def using Cons.prems(1) True by (simp add: freshAt_setTile)
    qed
    have filt: "filter (freshAt g1 gx gy r) ds = filter (freshAt g gx gy r) ds" for r
      by (rule filter_cong [OF refl]) (rule fresh)
    have ex: "list_ex (\<lambda>d. freshAt g1 gx gy Forest d \<or> freshAt g1 gx gy Stone d) ds
        = list_ex (\<lambda>d. freshAt g gx gy Forest d \<or> freshAt g gx gy Stone d) ds"
      by (auto simp add: list_ex_iff fresh)
    obtain g' where g': "foldl (revealStep gx gy) (g1, s1, f1) ds =
      (g',
       s1\<lparr>wood := wood s1 + 20 * int (length (filter (freshAt g1 gx gy Forest) ds)),
          stone := stone s1 + 10 * int (length (filter (freshAt g1 gx gy Stone) ds))\<rparr>,
       f1 \<or> list_ex (\<lambda>d. freshAt g1 gx gy Forest d \<or> freshAt g1 gx gy Stone d) ds)"
      and wf': "wf_grid g'"
      and tiles: "\<And>a b. inBounds a b \<Longrightarrow> tileAt g' a b =
          (if (a - gx, b - gy) \<in> set ds then (tileAt g1 a b)\<lparr>explored := True\<rparr>
           else tileAt g1 a b)"
      using Cons.IH [OF wf1 dist, of s1 f1] by blast
    have t1: "tileAt g1 a b =
        (if a = gx + rx \<and> b = gy + ry then (tileAt g a b)\<lparr>explored := True\<rparr> else tileAt g a b)"
      if "inBounds a b" for a b
      unfolding g1_def using True by (auto simp add: tileAt_setTile [OF Cons.prems(1) _ that])
    show ?thesis
    proof (intro exI [of _ g'] conjI allI impI)
      show "foldl (revealStep gx gy) (g, s, found) (d # ds) =
        (g',
         s\<lparr>wood := wood s + 20 * int (length (filter (freshAt g gx gy Forest) (d # ds))),
            stone := stone s + 10 * int (length (filter (freshAt g gx gy Stone) (d # ds)))\<rparr>,
         found \<or> list_ex (\<lambda>d. freshAt g gx gy Forest d \<or> freshAt g gx gy Stone d) (d # ds))"
        by (simp add: d step g' filt ex) (auto simp add: s1_def f1_def)
      show "wf_grid g'" by (rule wf')
      show "tileAt g' a b =
          (if (a - gx, b - gy) \<in> set (d # ds) then (tileAt g a b)\<lparr>explored := True\<rparr>
           else tileAt g a b)" if "inBounds a b" for a b
      proof -
        have "(a - gx, b - gy) = (rx, ry) \<longleftrightarrow> a = gx + rx \<and> b = gy + ry"
          by auto
        then show ?thesis
          by (auto simp add: d tiles [OF that] t1 [OF that])
      qed
    qed
  qed
qed


lemma foldl_revealStep_noop:
  assumes "\<And>rx ry. (rx, ry) \<in> set ds \<Longrightarrow> inBounds (gx + rx) (gy + ry) \<Longrightarrow>
             explored (tileAt g (gx + rx) (gy + ry))"
  shows "foldl (revealStep gx gy) (g, s, found) ds = (g, s, found)"
  using assms
proof (induction ds)
  case Nil
  then show ?case by simp
next
  case (Cons d ds)
  obtain rx ry where d: "d = (rx, ry)" by (cases d)
  have "\<not> (inBounds (gx + rx) (gy + ry) \<and> \<not> explored (tileAt g (gx + rx) (gy + ry)))"
    using Cons.prems [of rx ry] by (auto simp add: d)
  then have "revealStep gx gy (g, s, found) (rx, ry) = (g, s, found)"
    by (simp only: revealStep_cases if_False simp_thms)
  then show ?case
    using Cons by (simp add: d)
qed

lemma distinct_revealRange: "distinct revealRange"
  by (simp add: revealRange_def)

text \<open>
  Claim C10. The reveal is idempotent: running it again at the same place changes neither
  grid nor ledger nor news. A tile that was already explored is left as it was. Wood grows
  by 20 for each forest tile and stone by 10 for each stone tile, counting only the tiles
  of the reveal range that were unexplored before. Money, food and population do not
  change and no news item is added: the flag that would pay the bonus of 50 is tested
  before the loop has run.
\<close>

theorem reveal_idempotent:
  assumes wf: "wf_grid g"
  shows "case revealArea gx gy (g, s, feed) of
     (g1, s1, feed1) \<Rightarrow>
        revealArea gx gy (g1, s1, feed1) = (g1, s1, feed1)
      \<and> wf_grid g1
      \<and> (\<forall>a b. inBounds a b \<longrightarrow> tileAt g1 a b =
            (if (a - gx, b - gy) \<in> set revealRange then (tileAt g a b)\<lparr>explored := True\<rparr>
             else tileAt g a b))
      \<and> (\<forall>a b. inBounds a b \<and> explored (tileAt g a b) \<longrightarrow> tileAt g1 a b = tileAt g a b)
      \<and> wood s1 = wood s + 20 * int (length (filter (freshAt g gx gy Forest) revealRange))
      \<and> stone s1 = stone s + 10 * int (length (filter (freshAt g gx gy Stone) revealRange))
      \<and> money s1 = money s \<and> food s1 = food s \<and> population s1 = population s
      \<and> day s1 = day s \<and> era s1 = era s \<and> weather s1 = weather s
      \<and> feed1 = feed"
proof -
  define fd where
    "fd = list_ex (\<lambda>d. freshAt g gx gy Forest d \<or> freshAt g gx gy Stone d) revealRange"
  define s1 where "s1 = s\<lparr>wood := wood s + 20 * int (length (filter (freshAt g gx gy Forest) revealRange)),
          stone := stone s + 10 * int (length (filter (freshAt g gx gy Stone) revealRange))\<rparr>"
  obtain g' where fold: "foldl (revealStep gx gy) (g, s, False) revealRange = (g', s1, fd)"
    and wf': "wf_grid g'"
    and tiles: "\<And>a b. inBounds a b \<Longrightarrow> tileAt g' a b =
          (if (a - gx, b - gy) \<in> set revealRange then (tileAt g a b)\<lparr>explored := True\<rparr>
           else tileAt g a b)"
    using foldl_revealStep [OF wf distinct_revealRange, of gx gy s False]
    unfolding fd_def s1_def by auto
  have first: "revealArea gx gy (g, s, feed) = (g', s1, feed)"
    by (simp add: revealArea_def fold)
  have seen: "explored (tileAt g' (gx + rx) (gy + ry))"
    if "(rx, ry) \<in> set revealRange" "inBounds (gx + rx) (gy + ry)" for rx ry
    using that by (simp add: tiles)
  have "foldl (revealStep gx gy) (g', s1, False) revealRange = (g', s1, False)"
    by (rule foldl_revealStep_noop) (rule seen)
  then have again: "revealArea gx gy (g', s1, feed) = (g', s1, feed)"
    by (simp add: revealArea_def)
  have keep: "tileAt g' a b = tileAt g a b" if "inBounds a b" "explored (tileAt g a b)" for a b
    using that by (simp add: tiles)
  have ledger: "wood s1 = wood s + 20 * int (length (filter (freshAt g gx gy Forest) revealRange))"
    "stone s1 = stone s + 10 * int (length (filter (freshAt g gx gy Stone) revealRange))"
    "money s1 = money s" "food s1 = food s" "population s1 = population s"
    "day s1 = day s" "era s1 = era s" "weather s1 = weather s"
    by (simp_all add: s1_def)
  show ?thesis
    unfolding first prod.case
    using again wf' tiles keep ledger by blast
qed

text \<open>
  Near the south-east island of the generated grid the reveal at (15, 14) uncovers one
  forest and one stone tile: wood 100 becomes 120, stone 50 becomes 60, money stays 1500
  and no news item appears. The forest at (14, 14), explored before, pays nothing and
  stays as it was; a second reveal changes nothing.
\<close>

theorem reveal_idempotent_witness:
  "wf_grid fogGrid
   \<and> \<not> explored (fogGrid ! 14 ! 15) \<and> resourceType (fogGrid ! 14 ! 15) = Forest
   \<and> \<not> explored (fogGrid ! 14 ! 16) \<and> resourceType (fogGrid ! 14 ! 16) = Stone
   \<and> explored (fogGrid ! 14 ! 14) \<and> resourceType (fogGrid ! 14 ! 14) = Forest
   \<and> wood (fst (snd (revealArea 15 14 (fogGrid, initialStats, [])))) = 120
   \<and> stone (fst (snd (revealArea 15 14 (fogGrid, initialStats, [])))) = 60
   \<and> money (fst (snd (revealArea 15 14 (fogGrid, initialStats, [])))) = 1500
   \<and> snd (snd (revealArea 15 14 (fogGrid, initialStats, []))) = []
   \<and> explored (fst (revealArea 15 14 (fogGrid, initialStats, [])) ! 14 ! 15)
   \<and> explored (fst (revealArea 15 14 (fogGrid, initialStats, [])) ! 14 ! 16)
   \<and> fst (revealArea 15 14 (fogGrid, initialStats, [])) ! 14 ! 14 = fogGrid ! 14 ! 14
   \<and> \<not> explored (fst (revealArea 15 14 (fogGrid, initialStats, [])) ! 14 ! 17)
   \<and> revealArea 15 14 (revealArea 15 14 (fogGrid, initialStats, []))
        = revealArea 15 14 (fogGrid, initialStats, [])"
proof -
  have wf: "wf_grid fogGrid"
    by code_simp
  have before: "\<not> explored (fogGrid ! 14 ! 15) \<and> resourceType (fogGrid ! 14 ! 15) = Forest
   \<and> \<not> explored (fogGrid ! 14 ! 16) \<and> resourceType (fogGrid ! 14 ! 16) = Stone
   \<and> explored (fogGrid ! 14 ! 14) \<and> resourceType (fogGrid ! 14 ! 14) = Forest"
    by code_simp
  have ev: "wood (fst (snd (revealArea 15 14 (fogGrid, initialStats, [])))) = 120
   \<and> stone (fst (snd (revealArea 15 14 (fogGrid, initialStats, [])))) = 60
   \<and> money (fst (snd (revealArea 15 14 (fogGrid, initialStats, [])))) = 1500
   \<and> snd (snd (revealArea 15 14 (fogGrid, initialStats, []))) = []"
    by code_simp
  have after: "explored (fst (revealArea 15 14 (fogGrid, initialStats, [])) ! 14 ! 15)
   \<and> explored (fst (revealArea 15 14 (fogGrid, initialStats, [])) ! 14 ! 16)
   \<and> fst (revealArea 15 14 (fogGrid, initialStats, [])) ! 14 ! 14 = fogGrid ! 14 ! 14
   \<and> \<not> explored (fst (revealArea 15 14 (fogGrid, initialStats, [])) ! 14 ! 17)"
    by code_simp
  obtain g1 s1 f1 where r: "revealArea 15 14 (fogGrid, initialStats, []) = (g1, s1, f1)"
    by (cases "revealArea 15 14 (fogGrid, initialStats, [])")
  have "revealArea 15 14 (g1, s1, f1) = (g1, s1, f1)"
    using reveal_idempotent [OF wf, of 15 14 initialStats "[]", unfolded r prod.case]
    by (rule conjunct1)
  then show ?thesis
    using wf before ev after by (simp add: r)
qed

section \<open>Facts about tile levels\<close>

lemma levelsOK_iff:
  assumes "wf_grid g"
  shows "levelsOK g \<longleftrightarrow> (\<forall>a b. inBounds a b \<longrightarrow> tileLevelOK (tileAt g a b))"
proof
  assume ok: "levelsOK g"
  show "\<forall>a b. inBounds a b \<longrightarrow> tileLevelOK (tileAt g a b)"
  proof (intro allI impI)
    fix a b
    assume "inBounds a b"
    then have "nat a < 20" "nat b < 20"
      unfolding inBounds_def by arith+
    then show "tileLevelOK (tileAt g a b)"
      using ok assms by (simp add: levelsOK_def list_all_length wf_grid_def tileAt_def)
  qed
next
  assume all: "\<forall>a b. inBounds a b \<longrightarrow> tileLevelOK (tileAt g a b)"
  have "tileLevelOK (g ! i ! j)" if "i < 20" "j < 20" for i j
  proof -
    have "inBounds (int j) (int i)"
      using that by (simp add: inBounds_def)
    then have "tileLevelOK (tileAt g (int j) (int i))"
      using all by blast
    then show ?thesis
      by (simp add: tileAt_def)
  qed
  then show "levelsOK g"
    using assms by (simp add: levelsOK_def list_all_length wf_grid_def)
qed

lemma recalc_level:
  "wf_grid g \<Longrightarrow> inBounds a b \<Longrightarrow>
     level (tileAt (recalcLandValues rng px py g) a b) = level (tileAt g a b)
   \<and> buildingType (tileAt (recalcLandValues rng px py g) a b) = buildingType (tileAt g a b)"
  by (simp add: recalc_tile)

lemma upgradeBranch_unfold:
  "upgradeBranch tool px py gm =
    (if level (tileAt (grid gm) px py) \<ge> 3 then notify (MaxLevel, neutral) gm
     else if affordable (stats gm)
               (upgradeCost (costMoney (BUILDINGS tool)) (level (tileAt (grid gm) px py)))
               (upgradeCost (costWood (BUILDINGS tool)) (level (tileAt (grid gm) px py)))
               (upgradeCost (costStone (BUILDINGS tool)) (level (tileAt (grid gm) px py)))
     then notify (UpgradedTo (name (BUILDINGS tool)) (level (tileAt (grid gm) px py) + 1), positive)
            (gm\<lparr>stats := debit
                     (upgradeCost (costMoney (BUILDINGS tool)) (level (tileAt (grid gm) px py)))
                     (upgradeCost (costWood (BUILDINGS tool)) (level (tileAt (grid gm) px py)))
                     (upgradeCost (costStone (BUILDINGS tool)) (level (tileAt (grid gm) px py)))
                     (stats gm),
                grid := setTile (grid gm) px py
                          ((tileAt (grid gm) px py)\<lparr>level := level (tileAt (grid gm) px py) + 1\<rparr>)\<rparr>)
     else notify (UpgradeCosts
                    (upgradeCost (costMoney (BUILDINGS tool)) (level (tileAt (grid gm) px py)))
                    (upgradeCost (costWood (BUILDINGS tool)) (level (tileAt (grid gm) px py)))
                    (upgradeCost (costStone (BUILDINGS tool)) (level (tileAt (grid gm) px py))),
                  negative) gm)"
  unfolding upgradeBranch_def Let_def ..

lemma demolishBranch_unfold:
  "demolishBranch px py gm =
    (if buildingType (tileAt (grid gm) px py) \<noteq> NoneB
     then
       if money (stats gm) \<ge> 5
       then gm\<lparr>grid := recalcLandValues demolishRange px py
                  (setTile (grid gm) px py
                     ((tileAt (grid gm) px py)\<lparr>buildingType := NoneB, level := 1\<rparr>)),
               stats := (if resourceType (tileAt (grid gm) px py) = Forest
                         then (stats gm)\<lparr>money := money (stats gm) - 5\<rparr>
                                \<lparr>wood := wood ((stats gm)\<lparr>money := money (stats gm) - 5\<rparr>) + 10\<rparr>
                         else (stats gm)\<lparr>money := money (stats gm) - 5\<rparr>)\<rparr>
       else gm
     else gm)"
  unfolding demolishBranch_def Let_def ..

lemma upgradeBranch_grid:
  "grid (upgradeBranch tool px py gm) = grid gm
   \<or> level (tileAt (grid gm) px py) < 3
     \<and> grid (upgradeBranch tool px py gm) =
         setTile (grid gm) px py
           ((tileAt (grid gm) px py)\<lparr>level := level (tileAt (grid gm) px py) + 1\<rparr>)"
  by (simp add: upgradeBranch_unfold)

lemma demolishBranch_grid:
  "grid (demolishBranch px py gm) = grid gm
   \<or> grid (demolishBranch px py gm) =
        recalcLandValues demolishRange px py
          (setTile (grid gm) px py
             ((tileAt (grid gm) px py)\<lparr>buildingType := NoneB, level := 1\<rparr>))"
  by (simp add: demolishBranch_unfold)

lemma buildBranch_grid:
  "grid (buildBranch tool now px py gm) = grid gm
   \<or> buildingType (tileAt (grid gm) px py) = NoneB
     \<and> grid (buildBranch tool now px py gm) =
        recalcLandValues buildRange px py
          (setTile (grid gm) px py
             ((tileAt (grid gm) px py)\<lparr>buildingType := tool, level := 1\<rparr>))"
  by (simp add: buildBranch_unfold)


lemma click_levels:
  assumes wf: "wf_grid (grid gm)" and ok: "levelsOK (grid gm)"
    and gm': "gm' = handleTileClick tool now px py gm"
  shows "wf_grid (grid gm')
    \<and> (\<forall>a b. inBounds a b \<longrightarrow>
          tileLevelOK (tileAt (grid gm') a b)
        \<and> (if tool = NoneB
            then level (tileAt (grid gm') a b) = level (tileAt (grid gm) a b)
               \<or> (a = px \<and> b = py \<and> level (tileAt (grid gm') a b) = 1)
            else level (tileAt (grid gm') a b) = level (tileAt (grid gm) a b)
               \<or> (a = px \<and> b = py \<and> buildingType (tileAt (grid gm) px py) = tool
                  \<and> level (tileAt (grid gm') a b) = level (tileAt (grid gm) a b) + 1)))"
proof -
  define g where "g = grid gm"
  define t where "t = tileAt g px py"
  have inv: "tileLevelOK (tileAt g a b)" if "inBounds a b" for a b
    using ok wf that unfolding g_def by (simp add: levelsOK_iff)
  have wfg: "wf_grid g"
    using wf by (simp add: g_def)
  have same: ?thesis if "grid gm' = g"
    using that wfg inv by (simp add: g_def)
  show ?thesis
  proof (cases "gameStarted gm \<and> inBounds px py \<and> explored (tileAt (grid gm) px py)")
    case False
    then have "gm' = gm"
      unfolding gm' by (rule handleTileClick_noop)
    then show ?thesis
      by (intro same) (simp add: g_def)
  next
    case True
    then have p: "inBounds px py" by simp
    have tOK: "tileLevelOK t"
      unfolding t_def using p by (rule inv)
    have act: "gm' = (if tool \<noteq> NoneB \<and> buildingType t = tool
        then upgradeBranch tool px py gm
        else if tool = NoneB then demolishBranch px py gm
        else buildBranch tool now px py gm)"
      using True unfolding gm' t_def g_def by (simp add: handleTileClick_active)
    consider (up) "tool \<noteq> NoneB" "buildingType t = tool" "gm' = upgradeBranch tool px py gm"
      | (down) "tool = NoneB" "gm' = demolishBranch px py gm"
      | (build) "tool \<noteq> NoneB" "buildingType t \<noteq> tool" "gm' = buildBranch tool now px py gm"
      using act by (cases "tool = NoneB"; cases "buildingType t = tool"; simp)
    then show ?thesis
    proof cases
      case up
      consider "grid gm' = g"
        | "level t < 3" "grid gm' = setTile g px py (t\<lparr>level := level t + 1\<rparr>)"
        using upgradeBranch_grid [of tool px py gm] unfolding up(3) g_def t_def by blast
      then show ?thesis
      proof cases
        case 1
        then show ?thesis by (rule same)
      next
        case 2
        have tile: "tileAt (grid gm') a b =
            (if a = px \<and> b = py then t\<lparr>level := level t + 1\<rparr> else tileAt g a b)"
          if "inBounds a b" for a b
          unfolding 2(2) by (rule tileAt_setTile [OF wfg p that])
        have "wf_grid (grid gm')"
          unfolding 2(2) using wfg by (rule wf_setTile)
        moreover have "tileLevelOK (tileAt (grid gm') a b)
            \<and> (level (tileAt (grid gm') a b) = level (tileAt g a b)
               \<or> (a = px \<and> b = py \<and> buildingType (tileAt g px py) = tool
                  \<and> level (tileAt (grid gm') a b) = level (tileAt g a b) + 1))"
          if "inBounds a b" for a b
          using inv [OF that] tOK 2(1) up(1,2)
          by (auto simp add: tile [OF that] tileLevelOK_def t_def)
        ultimately show ?thesis
          using up(1) by (simp add: g_def)
      qed
    next
      case down
      consider "grid gm' = g"
        | "grid gm' = recalcLandValues demolishRange px py
             (setTile g px py (t\<lparr>buildingType := NoneB, level := 1\<rparr>))"
        using demolishBranch_grid [of px py gm] unfolding down(2) g_def t_def by blast
      then show ?thesis
      proof cases
        case 1
        then show ?thesis by (rule same)
      next
        case 2
        have wf0: "wf_grid (setTile g px py (t\<lparr>buildingType := NoneB, level := 1\<rparr>))"
          using wfg by (rule wf_setTile)
        have "wf_grid (grid gm')"
          unfolding 2 using wf0 by (rule recalc_wf)
        moreover have "tileLevelOK (tileAt (grid gm') a b)
            \<and> (level (tileAt (grid gm') a b) = level (tileAt g a b)
               \<or> (a = px \<and> b = py \<and> level (tileAt (grid gm') a b) = 1))"
          if "inBounds a b" for a b
          using inv [OF that] recalc_level [OF wf0 that, of demolishRange px py]
          unfolding 2
          by (auto simp add: tileAt_setTile [OF wfg p that] tileLevelOK_def)
        ultimately show ?thesis
          using down(1) by (simp add: g_def)
      qed
    next
      case build
      consider "grid gm' = g"
        | "buildingType t = NoneB"
          "grid gm' = recalcLandValues buildRange px py
             (setTile g px py (t\<lparr>buildingType := tool, level := 1\<rparr>))"
        using buildBranch_grid [of tool now px py gm] unfolding build(3) g_def t_def by blast
      then show ?thesis
      proof cases
        case 1
        then show ?thesis by (rule same)
      next
        case 2
        have wf0: "wf_grid (setTile g px py (t\<lparr>buildingType := tool, level := 1\<rparr>))"
          using wfg by (rule wf_setTile)
        have "wf_grid (grid gm')"
          unfolding 2(2) using wf0 by (rule recalc_wf)
        moreover have "tileLevelOK (tileAt (grid gm') a b)
            \<and> level (tileAt (grid gm') a b) = level (tileAt g a b)"
          if "inBounds a b" for a b
          using inv [OF that] tOK 2(1) build(1) recalc_level [OF wf0 that, of buildRange px py]
          unfolding 2(2)
          by (auto simp add: tileAt_setTile [OF wfg p that] tileLevelOK_def t_def)
        ultimately show ?thesis
          using build(1) by (simp add: g_def)
      qed
    qed
  qed
qed


lemma revealArea_levels:
  assumes "wf_grid g"
  shows "wf_grid (fst (revealArea gx gy (g, s, feed)))
    \<and> (\<forall>a b. inBounds a b \<longrightarrow>
          level (tileAt (fst (revealArea gx gy (g, s, feed))) a b) = level (tileAt g a b)
        \<and> buildingType (tileAt (fst (revealArea gx gy (g, s, feed))) a b)
            = buildingType (tileAt g a b))"
proof -
  obtain g' s' fd where fold: "foldl (revealStep gx gy) (g, s, False) revealRange = (g', s', fd)"
    and wf': "wf_grid g'"
    and tiles: "\<And>a b. inBounds a b \<Longrightarrow> tileAt g' a b =
          (if (a - gx, b - gy) \<in> set revealRange then (tileAt g a b)\<lparr>explored := True\<rparr>
           else tileAt g a b)"
    using foldl_revealStep [OF assms distinct_revealRange, of gx gy s False] by blast
  have "fst (revealArea gx gy (g, s, feed)) = g'"
    by (simp add: revealArea_def fold)
  then show ?thesis
    using wf' by (simp add: tiles)
qed

lemma boatStep_levels:
  assumes "wf_grid g"
  shows "wf_grid (fst (snd (boatStep g0 ts boat (g, s, feed))))
    \<and> (\<forall>a b. inBounds a b \<longrightarrow>
          level (tileAt (fst (snd (boatStep g0 ts boat (g, s, feed)))) a b) = level (tileAt g a b)
        \<and> buildingType (tileAt (fst (snd (boatStep g0 ts boat (g, s, feed)))) a b)
            = buildingType (tileAt g a b))"
proof -
  have "snd (boatStep g0 ts boat (g, s, feed)) = (g, s, feed)
    \<or> (\<exists>gx gy. snd (boatStep g0 ts boat (g, s, feed)) = revealArea gx gy (g, s, feed))"
    by (auto simp add: boatStep_def Let_def)
  then show ?thesis
    using assms revealArea_levels [OF assms] by auto
qed

lemma boatMap_levels:
  assumes "wf_grid g"
  shows "wf_grid (fst (snd (boatMap g0 ts bs (g, s, feed))))
    \<and> (\<forall>a b. inBounds a b \<longrightarrow>
          level (tileAt (fst (snd (boatMap g0 ts bs (g, s, feed)))) a b) = level (tileAt g a b)
        \<and> buildingType (tileAt (fst (snd (boatMap g0 ts bs (g, s, feed)))) a b)
            = buildingType (tileAt g a b))"
  using assms
proof (induction bs arbitrary: g s feed)
  case Nil
  then show ?case by simp
next
  case (Cons boat bs)
  obtain boat' g1 s1 f1 where st: "boatStep g0 ts boat (g, s, feed) = (boat', g1, s1, f1)"
    by (metis prod_cases4)
  have one: "wf_grid g1"
    "\<And>a b. inBounds a b \<Longrightarrow> level (tileAt g1 a b) = level (tileAt g a b)
        \<and> buildingType (tileAt g1 a b) = buildingType (tileAt g a b)"
    using boatStep_levels [OF Cons.prems, of g0 ts boat s feed] by (simp_all add: st)
  obtain bs' g2 s2 f2 where rest: "boatMap g0 ts bs (g1, s1, f1) = (bs', g2, s2, f2)"
    by (metis prod_cases4)
  have two: "wf_grid g2"
    "\<And>a b. inBounds a b \<Longrightarrow> level (tileAt g2 a b) = level (tileAt g1 a b)
        \<and> buildingType (tileAt g2 a b) = buildingType (tileAt g1 a b)"
    using Cons.IH [OF one(1), of s1 f1] by (simp_all add: rest)
  have "fst (snd (boatMap g0 ts (boat # bs) (g, s, feed))) = g2"
    by (simp add: st rest)
  then show ?case
    using two one(2) by simp
qed

lemma boatTick_levels:
  assumes "wf_grid (grid gm)"
  shows "wf_grid (grid (boatTick gm))
    \<and> (\<forall>a b. inBounds a b \<longrightarrow>
          level (tileAt (grid (boatTick gm)) a b) = level (tileAt (grid gm) a b)
        \<and> buildingType (tileAt (grid (boatTick gm)) a b) = buildingType (tileAt (grid gm) a b))"
proof -
  have "grid (boatTick gm) = grid gm
    \<or> grid (boatTick gm) = fst (snd (boatMap (grid gm) (unexploredTiles (grid gm)) (boats gm)
          (grid gm, stats gm, newsFeed gm)))"
    by (auto simp add: boatTick_def Let_def split: prod.splits)
  then show ?thesis
    using assms boatMap_levels [OF assms] by auto
qed

lemma ticks_keep_grid:
  "grid (economyTick r1 r2 gm) = grid gm"
  "grid (enemyTick rSpawn rEdge rPos rNews newId rnd gm) = grid gm"
  "grid (handleEnemyClick ident gm) = grid gm"
  by (simp_all add: economyTick_def enemyTick_def moveEnemies_def spawnEnemy_def
        handleEnemyClick_def Let_def split: prod.splits)


lemma demolish_resets:
  assumes wf: "wf_grid (grid gm)" and started: "gameStarted gm" and p: "inBounds px py"
    and e: "explored (tileAt (grid gm) px py)"
    and b: "buildingType (tileAt (grid gm) px py) \<noteq> NoneB" and m: "5 \<le> money (stats gm)"
  shows "level (tileAt (grid (handleTileClick NoneB now px py gm)) px py) = 1
    \<and> buildingType (tileAt (grid (handleTileClick NoneB now px py gm)) px py) = NoneB
    \<and> money (stats (handleTileClick NoneB now px py gm)) = money (stats gm) - 5"
proof -
  have "handleTileClick NoneB now px py gm = demolishBranch px py gm"
    using started p e by (simp add: handleTileClick_active)
  then have eq: "handleTileClick NoneB now px py gm =
      gm\<lparr>grid := recalcLandValues demolishRange px py
                  (setTile (grid gm) px py
                     ((tileAt (grid gm) px py)\<lparr>buildingType := NoneB, level := 1\<rparr>)),
         stats := (if resourceType (tileAt (grid gm) px py) = Forest
                   then (stats gm)\<lparr>money := money (stats gm) - 5\<rparr>
                          \<lparr>wood := wood ((stats gm)\<lparr>money := money (stats gm) - 5\<rparr>) + 10\<rparr>
                   else (stats gm)\<lparr>money := money (stats gm) - 5\<rparr>)\<rparr>"
    using b m by (simp only: demolishBranch_unfold if_True simp_thms)
  have wf0: "wf_grid (setTile (grid gm) px py
      ((tileAt (grid gm) px py)\<lparr>buildingType := NoneB, level := 1\<rparr>))"
    using wf by (rule wf_setTile)
  show ?thesis
    unfolding eq
    using recalc_level [OF wf0 p, of demolishRange px py] tileAt_setTile [OF wf p p]
    by simp
qed

lemma upgrade_raises:
  assumes wf: "wf_grid (grid gm)" and started: "gameStarted gm" and p: "inBounds px py"
    and e: "explored (tileAt (grid gm) px py)"
    and tool: "tool \<noteq> NoneB" and b: "buildingType (tileAt (grid gm) px py) = tool"
    and l: "level (tileAt (grid gm) px py) < 3"
    and aff: "affordable (stats gm)
               (upgradeCost (costMoney (BUILDINGS tool)) (level (tileAt (grid gm) px py)))
               (upgradeCost (costWood (BUILDINGS tool)) (level (tileAt (grid gm) px py)))
               (upgradeCost (costStone (BUILDINGS tool)) (level (tileAt (grid gm) px py)))"
  shows "level (tileAt (grid (handleTileClick tool now px py gm)) px py)
      = level (tileAt (grid gm) px py) + 1"
proof -
  have "handleTileClick tool now px py gm = upgradeBranch tool px py gm"
    using started p e tool b by (simp add: handleTileClick_active)
  moreover have "\<not> 3 \<le> level (tileAt (grid gm) px py)"
    using l by simp
  ultimately have "grid (handleTileClick tool now px py gm) =
      setTile (grid gm) px py
        ((tileAt (grid gm) px py)\<lparr>level := level (tileAt (grid gm) px py) + 1\<rparr>)"
    using aff by (simp only: upgradeBranch_unfold if_True if_False notify_fields) simp
  then show ?thesis
    using tileAt_setTile [OF wf p p] by simp
qed

text \<open>
  Demolition lowers a level: on the generated grid with initial stats, a Park is built at
  (10, 10) and upgraded twice; the bulldoze click clears it to an empty tile at level 1
  for 5 money.
\<close>

theorem level_drops_on_demolish:
  "wf_grid (grid park3Game) \<and> levelsOK (grid park3Game) \<and> inBounds 10 10
   \<and> buildingType (grid park3Game ! 10 ! 10) = Park
   \<and> level (grid park3Game ! 10 ! 10) = 3
   \<and> money (stats park3Game) = 1263
   \<and> buildingType (grid (handleTileClick NoneB ''d'' 10 10 park3Game) ! 10 ! 10) = NoneB
   \<and> level (grid (handleTileClick NoneB ''d'' 10 10 park3Game) ! 10 ! 10) = 1
   \<and> money (stats (handleTileClick NoneB ''d'' 10 10 park3Game)) = 1258
   \<and> level (tileAt (grid (handleTileClick NoneB ''d'' 10 10 park3Game)) 10 10)
       < level (tileAt (grid park3Game) 10 10)"
  by code_simp

text \<open>
  Claim C6, amended. On a grid whose levels lie between 1 and 3 and whose empty tiles are
  at level 1, every operation keeps the levels in that range. A click with a building
  tool (build or upgrade) lowers no level: it changes no level except that an upgrade,
  a click on a tile that carries the tool, may raise the level of the clicked tile by one;
  the upgrade that is in range, below level 3 and affordable does raise it by one. A click
  with the bulldoze tool changes no level except that of the clicked tile; the demolition
  that succeeds (started game, explored tile in bounds with a building, money at least 5)
  resets the clicked tile to level 1 without a building, for 5 money. The boat tick
  changes no level; the economy tick, the enemy tick and a click on an enemy leave the
  grid alone. A click with a building tool on a tile that carries it at level 3 or above
  changes neither grid nor ledger nor boats nor enemies.
\<close>

theorem level_bounds:
  assumes wf: "wf_grid (grid gm)" and ok: "levelsOK (grid gm)"
  shows
   "(let gm' = handleTileClick tool now px py gm;
         t = tileAt (grid gm) px py
     in wf_grid (grid gm') \<and> levelsOK (grid gm')
      \<and> (\<forall>a b. inBounds a b \<longrightarrow>
            (if tool = NoneB
             then level (tileAt (grid gm') a b) = level (tileAt (grid gm) a b)
                \<or> (a = px \<and> b = py \<and> level (tileAt (grid gm') a b) = 1)
             else level (tileAt (grid gm) a b) \<le> level (tileAt (grid gm') a b)
                \<and> (level (tileAt (grid gm') a b) = level (tileAt (grid gm) a b)
                   \<or> (a = px \<and> b = py \<and> buildingType t = tool
                      \<and> level (tileAt (grid gm') a b) = level (tileAt (grid gm) a b) + 1))))
      \<and> (tool = NoneB \<and> gameStarted gm \<and> inBounds px py \<and> explored t
            \<and> buildingType t \<noteq> NoneB \<and> 5 \<le> money (stats gm) \<longrightarrow>
          level (tileAt (grid gm') px py) = 1
        \<and> buildingType (tileAt (grid gm') px py) = NoneB
        \<and> money (stats gm') = money (stats gm) - 5)
      \<and> (tool \<noteq> NoneB \<and> gameStarted gm \<and> inBounds px py \<and> explored t
            \<and> buildingType t = tool \<and> level t < 3
            \<and> affordable (stats gm)
                (upgradeCost (costMoney (BUILDINGS tool)) (level t))
                (upgradeCost (costWood (BUILDINGS tool)) (level t))
                (upgradeCost (costStone (BUILDINGS tool)) (level t)) \<longrightarrow>
          level (tileAt (grid gm') px py) = level t + 1)
      \<and> (tool \<noteq> NoneB \<and> buildingType t = tool \<and> 3 \<le> level t \<longrightarrow>
          grid gm' = grid gm \<and> stats gm' = stats gm \<and> boats gm' = boats gm
        \<and> enemies gm' = enemies gm))
    \<and> (let gm' = boatTick gm
       in wf_grid (grid gm') \<and> levelsOK (grid gm')
        \<and> (\<forall>a b. inBounds a b \<longrightarrow>
              level (tileAt (grid gm') a b) = level (tileAt (grid gm) a b)))
    \<and> grid (economyTick r1 r2 gm) = grid gm
    \<and> grid (enemyTick rSpawn rEdge rPos rNews newId rnd gm) = grid gm
    \<and> grid (handleEnemyClick ident gm) = grid gm"
proof -
  define gc where "gc = handleTileClick tool now px py gm"
  define gb where "gb = boatTick gm"
  define t where "t = tileAt (grid gm) px py"
  have inv: "tileLevelOK (tileAt (grid gm) a b)" if "inBounds a b" for a b
    using ok wf that by (simp add: levelsOK_iff)
  note c = click_levels [OF wf ok gc_def]
  have c1: "wf_grid (grid gc)" using c by blast
  have c2: "levelsOK (grid gc)"
    using c by (simp add: levelsOK_iff [OF c1])
  have c3: "if tool = NoneB
             then level (tileAt (grid gc) a b) = level (tileAt (grid gm) a b)
                \<or> (a = px \<and> b = py \<and> level (tileAt (grid gc) a b) = 1)
             else level (tileAt (grid gm) a b) \<le> level (tileAt (grid gc) a b)
                \<and> (level (tileAt (grid gc) a b) = level (tileAt (grid gm) a b)
                   \<or> (a = px \<and> b = py \<and> buildingType t = tool
                      \<and> level (tileAt (grid gc) a b) = level (tileAt (grid gm) a b) + 1))"
    if ab: "inBounds a b" for a b
  proof (cases "tool = NoneB")
    case True
    then show ?thesis
      using c ab by simp
  next
    case False
    then have "level (tileAt (grid gc) a b) = level (tileAt (grid gm) a b)
        \<or> (a = px \<and> b = py \<and> buildingType t = tool
           \<and> level (tileAt (grid gc) a b) = level (tileAt (grid gm) a b) + 1)"
      using c ab unfolding t_def by simp
    then show ?thesis
      using False by auto
  qed
  have c4: "grid gc = grid gm \<and> stats gc = stats gm \<and> boats gc = boats gm
        \<and> enemies gc = enemies gm"
    if "tool \<noteq> NoneB" "buildingType t = tool" "3 \<le> level t"
  proof (cases "gameStarted gm \<and> inBounds px py \<and> explored (tileAt (grid gm) px py)")
    case False
    then have "gc = gm"
      unfolding gc_def by (rule handleTileClick_noop)
    then show ?thesis by simp
  next
    case True
    then have "gc = upgradeBranch tool px py gm"
      using that by (simp add: gc_def t_def handleTileClick_active)
    then show ?thesis
      using that(3) by (simp add: upgradeBranch_unfold t_def)
  qed
  have c5: "level (tileAt (grid gc) px py) = 1
        \<and> buildingType (tileAt (grid gc) px py) = NoneB
        \<and> money (stats gc) = money (stats gm) - 5"
    if "tool = NoneB" "gameStarted gm" "inBounds px py" "explored t"
       "buildingType t \<noteq> NoneB" "5 \<le> money (stats gm)"
    using demolish_resets [OF wf that(2) that(3), of now] that(1,4,5,6)
    unfolding gc_def t_def by simp
  have c6: "level (tileAt (grid gc) px py) = level t + 1"
    if "tool \<noteq> NoneB" "gameStarted gm" "inBounds px py" "explored t"
       "buildingType t = tool" "level t < 3"
       "affordable (stats gm)
                (upgradeCost (costMoney (BUILDINGS tool)) (level t))
                (upgradeCost (costWood (BUILDINGS tool)) (level t))
                (upgradeCost (costStone (BUILDINGS tool)) (level t))"
    using upgrade_raises [OF wf that(2) that(3), of tool now] that(1,4,5,6,7)
    unfolding gc_def t_def by simp
  note b = boatTick_levels [OF wf]
  have b1: "wf_grid (grid gb)" using b by (simp add: gb_def)
  have b3: "\<forall>a b. inBounds a b \<longrightarrow> level (tileAt (grid gb) a b) = level (tileAt (grid gm) a b)"
    using b by (simp add: gb_def)
  have b2: "levelsOK (grid gb)"
    unfolding levelsOK_iff [OF b1]
  proof (intro allI impI)
    fix a b
    assume ab: "inBounds a b"
    then show "tileLevelOK (tileAt (grid gb) a b)"
      using inv [OF ab] b by (simp add: gb_def tileLevelOK_def)
  qed
  have click: "wf_grid (grid gc) \<and> levelsOK (grid gc)
      \<and> (\<forall>a b. inBounds a b \<longrightarrow>
            (if tool = NoneB
             then level (tileAt (grid gc) a b) = level (tileAt (grid gm) a b)
                \<or> (a = px \<and> b = py \<and> level (tileAt (grid gc) a b) = 1)
             else level (tileAt (grid gm) a b) \<le> level (tileAt (grid gc) a b)
                \<and> (level (tileAt (grid gc) a b) = level (tileAt (grid gm) a b)
                   \<or> (a = px \<and> b = py \<and> buildingType t = tool
                      \<and> level (tileAt (grid gc) a b) = level (tileAt (grid gm) a b) + 1))))
      \<and> (tool = NoneB \<and> gameStarted gm \<and> inBounds px py \<and> explored t
            \<and> buildingType t \<noteq> NoneB \<and> 5 \<le> money (stats gm) \<longrightarrow>
          level (tileAt (grid gc) px py) = 1
        \<and> buildingType (tileAt (grid gc) px py) = NoneB
        \<and> money (stats gc) = money (stats gm) - 5)
      \<and> (tool \<noteq> NoneB \<and> gameStarted gm \<and> inBounds px py \<and> explored t
            \<and> buildingType t = tool \<and> level t < 3
            \<and> affordable (stats gm)
                (upgradeCost (costMoney (BUILDINGS tool)) (level t))
                (upgradeCost (costWood (BUILDINGS tool)) (level t))
                (upgradeCost (costStone (BUILDINGS tool)) (level t)) \<longrightarrow>
          level (tileAt (grid gc) px py) = level t + 1)
      \<and> (tool \<noteq> NoneB \<and> buildingType t = tool \<and> 3 \<le> level t \<longrightarrow>
          grid gc = grid gm \<and> stats gc = stats gm \<and> boats gc = boats gm
        \<and> enemies gc = enemies gm)"
    using c1 c2 c3 c4 c5 c6 by blast
  have boat: "wf_grid (grid gb) \<and> levelsOK (grid gb)
        \<and> (\<forall>a b. inBounds a b \<longrightarrow>
              level (tileAt (grid gb) a b) = level (tileAt (grid gm) a b))"
    using b1 b2 b3 by blast
  show ?thesis
    unfolding Let_def gc_def [symmetric] gb_def [symmetric] t_def [symmetric]
    using click boat ticks_keep_grid by blast
qed

text \<open>
  On the generated grid with the level-3 Park at (10, 10): a further upgrade click changes
  nothing; the bulldoze click resets the tile to level 1 without a building and costs 5;
  the levels stay in range after the demolition and after a boat tick. On the Park at
  level 1, which costs 75 money, 15 wood and 7 stone to upgrade, the upgrade click raises
  the level to 2.
\<close>

theorem level_bounds_witness:
  "wf_grid (grid park3Game) \<and> levelsOK (grid park3Game)
   \<and> level (grid park3Game ! 10 ! 10) = 3
   \<and> grid (handleTileClick Park ''u3'' 10 10 park3Game) = grid park3Game
   \<and> stats (handleTileClick Park ''u3'' 10 10 park3Game) = stats park3Game
   \<and> level (tileAt (grid (handleTileClick NoneB ''d'' 10 10 park3Game)) 10 10) = 1
   \<and> buildingType (tileAt (grid (handleTileClick NoneB ''d'' 10 10 park3Game)) 10 10) = NoneB
   \<and> money (stats park3Game) = 1263
   \<and> money (stats (handleTileClick NoneB ''d'' 10 10 park3Game)) = 1258
   \<and> levelsOK (grid (handleTileClick NoneB ''d'' 10 10 park3Game))
   \<and> levelsOK (grid (boatTick park3Game))
   \<and> level (grid (handleTileClick Park ''p'' 10 10 islandGame) ! 10 ! 10) = 1
   \<and> level (tileAt (grid (handleTileClick Park ''u1'' 10 10
                (handleTileClick Park ''p'' 10 10 islandGame))) 10 10) = 2"
proof -
  have wf: "wf_grid (grid park3Game)" and ok: "levelsOK (grid park3Game)"
    by code_simp+
  have top: "Park \<noteq> NoneB \<and> buildingType (tileAt (grid park3Game) 10 10) = Park
      \<and> 3 \<le> level (tileAt (grid park3Game) 10 10) \<and> level (grid park3Game ! 10 ! 10) = 3
      \<and> gameStarted park3Game \<and> inBounds 10 10 \<and> explored (tileAt (grid park3Game) 10 10)
      \<and> buildingType (tileAt (grid park3Game) 10 10) \<noteq> NoneB
      \<and> 5 \<le> money (stats park3Game) \<and> money (stats park3Game) = 1263"
    by code_simp
  define g1 where "g1 = handleTileClick Park ''p'' 10 10 islandGame"
  have wf1: "wf_grid (grid g1)" and ok1: "levelsOK (grid g1)"
    unfolding g1_def by code_simp+
  have low: "gameStarted g1 \<and> explored (tileAt (grid g1) 10 10)
      \<and> buildingType (tileAt (grid g1) 10 10) = Park
      \<and> level (tileAt (grid g1) 10 10) = 1 \<and> level (tileAt (grid g1) 10 10) < 3
      \<and> level (grid g1 ! 10 ! 10) = 1
      \<and> affordable (stats g1)
          (upgradeCost (costMoney (BUILDINGS Park)) (level (tileAt (grid g1) 10 10)))
          (upgradeCost (costWood (BUILDINGS Park)) (level (tileAt (grid g1) 10 10)))
          (upgradeCost (costStone (BUILDINGS Park)) (level (tileAt (grid g1) 10 10)))"
    unfolding g1_def by code_simp
  note up = level_bounds [OF wf ok, where tool = Park and now = "''u3''" and px = 10 and py = 10
      and ?r1.0 = 0 and ?r2.0 = 0 and rSpawn = 0 and rEdge = 0 and rPos = 0 and rNews = 0
      and newId = "''e''" and rnd = "\<lambda>i. 0" and ident = "''e''", unfolded Let_def]
  note down = level_bounds [OF wf ok, where tool = NoneB and now = "''d''" and px = 10 and py = 10
      and ?r1.0 = 0 and ?r2.0 = 0 and rSpawn = 0 and rEdge = 0 and rPos = 0 and rNews = 0
      and newId = "''e''" and rnd = "\<lambda>i. 0" and ident = "''e''", unfolded Let_def]
  note raise = level_bounds [OF wf1 ok1, where tool = Park and now = "''u1''" and px = 10
      and py = 10
      and ?r1.0 = 0 and ?r2.0 = 0 and rSpawn = 0 and rEdge = 0 and rPos = 0 and rNews = 0
      and newId = "''e''" and rnd = "\<lambda>i. 0" and ident = "''e''", unfolded Let_def]
  have a: "grid (handleTileClick Park ''u3'' 10 10 park3Game) = grid park3Game
   \<and> stats (handleTileClick Park ''u3'' 10 10 park3Game) = stats park3Game"
    using up top by blast
  have b: "level (tileAt (grid (handleTileClick NoneB ''d'' 10 10 park3Game)) 10 10) = 1
   \<and> buildingType (tileAt (grid (handleTileClick NoneB ''d'' 10 10 park3Game)) 10 10) = NoneB
   \<and> money (stats (handleTileClick NoneB ''d'' 10 10 park3Game)) = money (stats park3Game) - 5
   \<and> levelsOK (grid (handleTileClick NoneB ''d'' 10 10 park3Game))
   \<and> levelsOK (grid (boatTick park3Game))"
    using down top by blast
  have c: "level (tileAt (grid (handleTileClick Park ''u1'' 10 10 g1)) 10 10)
      = level (tileAt (grid g1) 10 10) + 1"
    using raise low top by blast
  show ?thesis
    using a b c wf ok top low unfolding g1_def by simp
qed

section \<open>Facts about the sign of the ledger\<close>

lemma fortGame_facts:
  "gameStarted fortGame \<and> money (stats fortGame) = 1350 \<and> wood (stats fortGame) = 80
   \<and> stone (stats fortGame) = 10 \<and> food (stats fortGame) = 200
   \<and> population (stats fortGame) = 0 \<and> era (stats fortGame) = Primitive"
  by code_simp

lemma fortGame_sweep:
  "dailyIncome (sweep (grid fortGame)) = - 5 \<and> dailyPopGrowth (sweep (grid fortGame)) = 0
   \<and> dailyWood (sweep (grid fortGame)) = 0 \<and> dailyStone (sweep (grid fortGame)) = 0
   \<and> dailyFood (sweep (grid fortGame)) = 0
   \<and> countOf (buildingCounts (sweep (grid fortGame))) Residential = 0"
  by code_simp

lemma quiet_tick:
  assumes "dailyIncome d = - 5" "dailyPopGrowth d = 0" "dailyWood d = 0" "dailyStone d = 0"
    "dailyFood d = 0" "countOf (buildingCounts d) Residential = 0"
    and "population prev = 0" "0 \<le> food prev" "era prev = Primitive"
  shows "fst (economyUpdate d 0 0 prev) = prev\<lparr>money := money prev - 5, day := day prev + 1\<rparr>"
  using assms by (simp add: economyUpdate_def Let_def thr_pop_def)

lemma fort_ticks:
  "grid ((economyTick 0 0 ^^ n) fortGame) = grid fortGame
   \<and> gameStarted ((economyTick 0 0 ^^ n) fortGame)
   \<and> money (stats ((economyTick 0 0 ^^ n) fortGame)) = 1350 - 5 * int n
   \<and> wood (stats ((economyTick 0 0 ^^ n) fortGame)) = 80
   \<and> stone (stats ((economyTick 0 0 ^^ n) fortGame)) = 10
   \<and> food (stats ((economyTick 0 0 ^^ n) fortGame)) = 200
   \<and> population (stats ((economyTick 0 0 ^^ n) fortGame)) = 0
   \<and> era (stats ((economyTick 0 0 ^^ n) fortGame)) = Primitive"
proof (induction n)
  case 0
  then show ?case
    using fortGame_facts by simp
next
  case (Suc n)
  define gm where "gm = (economyTick 0 0 ^^ n) fortGame"
  have ih: "grid gm = grid fortGame" "gameStarted gm" "money (stats gm) = 1350 - 5 * int n"
    "wood (stats gm) = 80" "stone (stats gm) = 10" "food (stats gm) = 200"
    "population (stats gm) = 0" "era (stats gm) = Primitive"
    using Suc by (simp_all add: gm_def)
  have st: "stats (economyTick 0 0 gm)
      = (stats gm)\<lparr>money := money (stats gm) - 5, day := day (stats gm) + 1\<rparr>"
    unfolding economyTick_stats [OF ih(2)] ih(1)
    using fortGame_sweep ih by (intro quiet_tick) simp_all
  have g: "grid (economyTick 0 0 gm) = grid gm" "gameStarted (economyTick 0 0 gm)"
    using ih(2) by (simp_all add: economyTick_def split: prod.splits)
  have "(economyTick 0 0 ^^ Suc n) fortGame = economyTick 0 0 gm"
    by (simp add: gm_def)
  then show ?case
    using st g ih by simp
qed

text \<open>
  Claim C7 (money, wood, stone, food and population are never negative) fails on the code
  for money. From the initial ledger, build one Defense and let the economy tick: its
  maintenance of 5 per tick is the only income, the tick does not clamp money, and after
  271 ticks money is -5.
\<close>

theorem money_goes_negative:
  "0 \<le> money initialStats \<and> stats plainGame = initialStats
   \<and> fortGame = handleTileClick Defense ''f'' 10 10 plainGame
   \<and> money (stats ((economyTick 0 0 ^^ 270) fortGame)) = 0
   \<and> money (stats ((economyTick 0 0 ^^ 271) fortGame)) = - 5
   \<and> money (stats (economyTick 0 0 ((economyTick 0 0 ^^ 270) fortGame))) < 0"
proof -
  have "money (stats ((economyTick 0 0 ^^ 270) fortGame)) = 0"
    "money (stats ((economyTick 0 0 ^^ 271) fortGame)) = - 5"
    using fort_ticks [of 270] fort_ticks [of 271] by simp_all
  moreover have "(economyTick 0 0 ^^ 271) fortGame
      = economyTick 0 0 ((economyTick 0 0 ^^ 270) fortGame)"
    by (simp add: numeral_eq_Suc del: funpow.simps) (simp add: numeral_eq_Suc [symmetric])
  ultimately show ?thesis
    by (simp add: fortGame_def plainGame_def initialStats_def)
qed

section \<open>Facts about the hostile agents\<close>

lemma turretStep_le:
  assumes "\<And>a b. inBounds a b \<Longrightarrow> 0 \<le> level (tileAt g a b)"
  shows "turretStep g gridX gridY h d \<le> h"
proof -
  obtain dx dy where d: "d = (dx, dy)" by (cases d)
  show ?thesis
    using assms [of "gridX + dx" "gridY + dy"]
    by (simp add: d turretStep_def Let_def)
qed

lemma turretDamage_le:
  assumes "\<And>a b. inBounds a b \<Longrightarrow> 0 \<le> level (tileAt g a b)"
  shows "turretDamage g gridX gridY h \<le> h"
proof -
  have "foldl (turretStep g gridX gridY) h ds \<le> h" for ds
  proof (induction ds arbitrary: h)
    case Nil
    show ?case by simp
  next
    case (Cons d ds)
    have "foldl (turretStep g gridX gridY) (turretStep g gridX gridY h d) ds
        \<le> turretStep g gridX gridY h d"
      by (rule Cons.IH)
    also have "\<dots> \<le> h"
      using assms by (rule turretStep_le)
    finally show ?case by simp
  qed
  then show ?thesis
    by (simp add: turretDamage_def)
qed

lemma enemyStep_hp:
  assumes "\<And>a b. inBounds a b \<Longrightarrow> 0 \<le> level (tileAt g a b)"
  shows "hp (fst (enemyStep g r e)) \<le> hp e \<and> enemy_id (fst (enemyStep g r e)) = enemy_id e
    \<and> maxHp (fst (enemyStep g r e)) = maxHp e"
proof -
  obtain tgX tgY minDist where t: "findTarget g e = (tgX, tgY, minDist)"
    by (cases "findTarget g e")
  show ?thesis
    using turretDamage_le [OF assms]
    by (simp add: enemyStep_def t Let_def)
qed

lemma findTarget_hp: "findTarget g (e\<lparr>hp := h\<rparr>) = findTarget g e"
proof -
  have "targetStep g (e\<lparr>hp := h\<rparr>) = targetStep g e"
    by (intro ext) (simp add: targetStep_def Let_def split: prod.splits)
  then show ?thesis
    by (simp add: findTarget_def)
qed

lemma enemyStep_steal_hp: "snd (enemyStep g r (e\<lparr>hp := h\<rparr>)) = snd (enemyStep g r e)"
proof -
  obtain tgX tgY minDist where t: "findTarget g e = (tgX, tgY, minDist)"
    by (cases "findTarget g e")
  show ?thesis
    by (simp add: enemyStep_def findTarget_hp t Let_def)
qed

lemma enemyMap_result:
  "enemyMap g rnd i es s =
     (map (\<lambda>(j, e). fst (enemyStep g (rnd j) e)) (enumerate i es),
      foldl (\<lambda>s (j, e). if snd (enemyStep g (rnd j) e) then steal s else s) s (enumerate i es))"
proof (induction es arbitrary: i s)
  case Nil
  show ?case by simp
next
  case (Cons e es)
  obtain e' st where st: "enemyStep g (rnd i) e = (e', st)"
    by (cases "enemyStep g (rnd i) e")
  show ?case
    by (simp add: st Cons.IH)
qed

lemma moveEnemies_result:
  "enemies (moveEnemies rnd gm) =
     filter (\<lambda>e. 0 < hp e)
       (map (\<lambda>(i, e). fst (enemyStep (grid gm) (rnd i) e)) (enumerate 0 (enemies gm)))
   \<and> stats (moveEnemies rnd gm) =
     foldl (\<lambda>s (i, e). if snd (enemyStep (grid gm) (rnd i) e) then steal s else s)
       (stats gm) (enumerate 0 (enemies gm))
   \<and> grid (moveEnemies rnd gm) = grid gm"
  by (simp add: moveEnemies_def enemyMap_result)



lemma foldl_targetStep_single:
  assumes other: "\<And>a b. (a, b) \<in> set cs \<Longrightarrow> (a, b) \<noteq> (p, q) \<Longrightarrow>
      buildingType (tileAt g a b) = NoneB"
    and here: "buildingType (tileAt g p q) \<noteq> NoneB" "buildingType (tileAt g p q) \<noteq> Road"
    and d: "d = \<bar>enemy_x e - of_int p\<bar> + \<bar>enemy_y e - of_int q\<bar>" "d < 999"
    and acc: "acc = (- 1, - 1, 999) \<or> acc = (p, q, d)"
  shows "foldl (targetStep g e) acc cs = (if (p, q) \<in> set cs then (p, q, d) else acc)"
  using other acc
proof (induction cs arbitrary: acc)
  case Nil
  show ?case by simp
next
  case (Cons c cs)
  obtain a b where c: "c = (a, b)" by (cases c)
  have rest: "\<And>a b. (a, b) \<in> set cs \<Longrightarrow> (a, b) \<noteq> (p, q) \<Longrightarrow>
      buildingType (tileAt g a b) = NoneB"
    using Cons.prems(1) by simp
  show ?case
  proof (cases "(a, b) = (p, q)")
    case True
    have "targetStep g e acc c = (p, q, d)"
      using Cons.prems(2) here d True by (auto simp add: c targetStep_def Let_def)
    then show ?thesis
      using Cons.IH [OF rest, of "(p, q, d)"] True by (simp add: c)
  next
    case False
    have "buildingType (tileAt g a b) = NoneB"
      using Cons.prems(1) [of a b] False by (simp add: c)
    then have "targetStep g e acc c = acc"
      by (simp add: c targetStep_def Let_def split: prod.splits)
    then show ?thesis
      using Cons.IH [OF rest Cons.prems(2)] False by (auto simp add: c)
  qed
qed

lemma findTarget_single:
  assumes "inBounds p q"
    and "\<And>a b. inBounds a b \<Longrightarrow> (a, b) \<noteq> (p, q) \<Longrightarrow> buildingType (tileAt g a b) = NoneB"
    and "buildingType (tileAt g p q) \<noteq> NoneB" "buildingType (tileAt g p q) \<noteq> Road"
    and "\<bar>enemy_x e - of_int p\<bar> + \<bar>enemy_y e - of_int q\<bar> < 999"
  shows "findTarget g e = (p, q, \<bar>enemy_x e - of_int p\<bar> + \<bar>enemy_y e - of_int q\<bar>)"
proof -
  have "(p, q) \<in> set scanCells"
    using assms(1) by (simp add: scanCells_set)
  moreover have "foldl (targetStep g e) (- 1, - 1, 999) scanCells =
      (if (p, q) \<in> set scanCells
       then (p, q, \<bar>enemy_x e - of_int p\<bar> + \<bar>enemy_y e - of_int q\<bar>)
       else (- 1, - 1, 999))"
    by (rule foldl_targetStep_single [OF _ assms(3,4) refl assms(5)])
       (simp_all add: scanCells_set assms(2))
  ultimately show ?thesis
    by (simp add: findTarget_def)
qed

lemma turretGame_grid:
  "grid turretGame =
     setTile plainGrid 10 10 ((tileAt plainGrid 10 10)\<lparr>buildingType := Defense\<rparr>)"
  by (simp add: turretGame_def)

lemma turretGame_target: "findTarget (grid turretGame) raider = (10, 10, 3/10)"
proof -
  have z: "inBounds 10 10" by (simp add: inBounds_def)
  have "findTarget (grid turretGame) raider =
      (10, 10, \<bar>enemy_x raider - of_int 10\<bar> + \<bar>enemy_y raider - of_int 10\<bar>)"
  proof (rule findTarget_single [OF z])
    show "buildingType (tileAt (grid turretGame) a b) = NoneB"
      if "inBounds a b" "(a, b) \<noteq> (10, 10)" for a b
      using that
      by (auto simp add: turretGame_grid tileAt_setTile [OF wf_plainGrid z that(1)]
            tileAt_plainGrid plainTile_def)
    show "buildingType (tileAt (grid turretGame) 10 10) \<noteq> NoneB"
      "buildingType (tileAt (grid turretGame) 10 10) \<noteq> Road"
      by (simp_all add: turretGame_grid tileAt_setTile [OF wf_plainGrid z z])
    show "\<bar>enemy_x raider - of_int 10\<bar> + \<bar>enemy_y raider - of_int 10\<bar> < 999"
      by (simp add: raider_def)
  qed
  then show ?thesis
    by (simp add: raider_def)
qed

lemma turretGame_damage: "turretDamage (grid turretGame) 10 10 5 = 0"
  by code_simp

lemma turretGame_step:
  "enemyStep (grid turretGame) (9/10) raider = (raider\<lparr>hp := 0, attackCooldown := 5\<rparr>, True)"
proof -
  have "jsRound (103/10) = 10" "jsRound 10 = 10"
    by code_simp+
  then show ?thesis
    using turretGame_damage
    by (simp add: enemyStep_def turretGame_target Let_def)
       (simp add: raider_def)
qed

lemma turretGame_move:
  "moveEnemies (\<lambda>i. 9/10) turretGame = turretGame\<lparr>enemies := [], stats := steal (stats turretGame)\<rparr>"
proof -
  have "enemies turretGame = [raider]"
    by (simp add: turretGame_def)
  then show ?thesis
    by (simp add: moveEnemies_def turretGame_step)
qed

text \<open>
  An agent can steal in the tick in which it dies: the turret takes the last 5 hit points
  of the raider, the raider is removed, and the ledger has lost 10 money and 5 food.
\<close>

theorem dying_enemy_steals:
  "enemies turretGame = [raider] \<and> hp raider = 5
   \<and> hp (fst (enemyStep (grid turretGame) (9/10) raider)) = 0
   \<and> snd (enemyStep (grid turretGame) (9/10) raider)
   \<and> enemies (moveEnemies (\<lambda>i. 9/10) turretGame) = []
   \<and> money (stats (moveEnemies (\<lambda>i. 9/10) turretGame)) = money (stats turretGame) - 10
   \<and> food (stats (moveEnemies (\<lambda>i. 9/10) turretGame)) = food (stats turretGame) - 5"
  unfolding turretGame_move turretGame_step
  by (simp add: turretGame_def raider_def steal_def plainGame_def initialStats_def)

text \<open>
  Claim C8, amended. On a grid whose levels are in range, one step of a hostile never
  raises its hit points and keeps its identifier; after the movement tick, after the whole
  enemy tick and after a click on an enemy the list holds exactly the agents whose hit
  points are still positive, so an agent at zero or below is gone from the next snapshot
  and its last move is never seen. Whether an agent steals in a tick does not depend on
  its hit points: the ledger after the tick is the old one with one theft for every agent
  whose step rolled one, dying or not.
\<close>

theorem hostile_hp:
  assumes wf: "wf_grid (grid gm)" and ok: "levelsOK (grid gm)"
  shows
   "(\<forall>r e. hp (fst (enemyStep (grid gm) r e)) \<le> hp e
          \<and> enemy_id (fst (enemyStep (grid gm) r e)) = enemy_id e)
    \<and> enemies (moveEnemies rnd gm) =
        filter (\<lambda>e. 0 < hp e)
          (map (\<lambda>(i, e). fst (enemyStep (grid gm) (rnd i) e)) (enumerate 0 (enemies gm)))
    \<and> (\<forall>e \<in> set (enemies (moveEnemies rnd gm)). 0 < hp e)
    \<and> (\<forall>e \<in> set (enemies (enemyTick rSpawn rEdge rPos rNews newId rnd gm)).
          0 < hp e \<or> \<not> gameStarted gm)
    \<and> enemies (handleEnemyClick ident gm) =
        filter (\<lambda>e. 0 < hp e)
          (map (\<lambda>e. if enemy_id e = ident then e\<lparr>hp := hp e - 20\<rparr> else e) (enemies gm))
    \<and> (\<forall>e \<in> set (enemies (handleEnemyClick ident gm)). 0 < hp e)
    \<and> stats (moveEnemies rnd gm) =
        foldl (\<lambda>s (i, e). if snd (enemyStep (grid gm) (rnd i) e) then steal s else s)
          (stats gm) (enumerate 0 (enemies gm))
    \<and> (\<forall>r e h. snd (enemyStep (grid gm) r (e\<lparr>hp := h\<rparr>)) = snd (enemyStep (grid gm) r e))"
proof -
  have lv: "0 \<le> level (tileAt (grid gm) a b)" if "inBounds a b" for a b
    using ok that unfolding levelsOK_iff [OF wf] tileLevelOK_def by force
  have step: "\<forall>r e. hp (fst (enemyStep (grid gm) r e)) \<le> hp e
          \<and> enemy_id (fst (enemyStep (grid gm) r e)) = enemy_id e"
    using enemyStep_hp [OF lv] by blast
  have alive: "\<forall>e \<in> set (enemies (moveEnemies rnd g')). 0 < hp e" for g'
    by (simp add: moveEnemies_result)
  have tick: "\<forall>e \<in> set (enemies (enemyTick rSpawn rEdge rPos rNews newId rnd gm)).
          0 < hp e \<or> \<not> gameStarted gm"
    using alive by (simp add: enemyTick_def)
  have click: "enemies (handleEnemyClick ident gm) =
        filter (\<lambda>e. 0 < hp e)
          (map (\<lambda>e. if enemy_id e = ident then e\<lparr>hp := hp e - 20\<rparr> else e) (enemies gm))"
    by (simp add: handleEnemyClick_def)
  have clicked: "\<forall>e \<in> set (enemies (handleEnemyClick ident gm)). 0 < hp e"
    unfolding click by simp
  have theft: "\<forall>r e h. snd (enemyStep (grid gm) r (e\<lparr>hp := h\<rparr>)) = snd (enemyStep (grid gm) r e)"
    by (simp add: enemyStep_steal_hp)
  show ?thesis
    using step alive tick click clicked theft moveEnemies_result [of rnd gm]
    by (intro conjI) blast+
qed

text \<open>
  On the game with the turret and the raider: the step does not raise the hit points, the
  tick removes the raider, and so does a click on it.
\<close>

theorem hostile_hp_witness:
  "wf_grid (grid turretGame) \<and> levelsOK (grid turretGame)
   \<and> hp (fst (enemyStep (grid turretGame) (9/10) raider)) \<le> hp raider
   \<and> enemies (moveEnemies (\<lambda>i. 9/10) turretGame) = []
   \<and> enemies (handleEnemyClick ''e1'' turretGame) = []"
proof -
  have wf: "wf_grid (grid turretGame)" and ok: "levelsOK (grid turretGame)"
    by code_simp+
  have raid: "enemies turretGame = [raider]"
    by (simp add: turretGame_def)
  have tick: "filter (\<lambda>e. 0 < hp e)
          (map (\<lambda>(i, e). fst (enemyStep (grid turretGame) (9/10) e))
             (enumerate 0 (enemies turretGame))) = []"
    by (simp add: raid turretGame_step)
  have click: "filter (\<lambda>e. 0 < hp e)
          (map (\<lambda>e. if enemy_id e = ''e1'' then e\<lparr>hp := hp e - 20\<rparr> else e)
             (enemies turretGame)) = []"
    by (simp add: raid raider_def)
  note h = hostile_hp [OF wf ok, where rnd = "\<lambda>i. 9/10" and ident = "''e1''"
      and rSpawn = 0 and rEdge = 0 and rPos = 0 and rNews = 0 and newId = "''n''"]
  have a: "hp (fst (enemyStep (grid turretGame) (9/10) raider)) \<le> hp raider"
    using h by blast
  have b: "enemies (moveEnemies (\<lambda>i. 9/10) turretGame) = []"
    using h unfolding tick by blast
  have c: "enemies (handleEnemyClick ''e1'' turretGame) = []"
    using h unfolding click by blast
  show ?thesis
    using wf ok a b c by blast
qed

end
